theory Spec2Isabelle
  imports Complex_Main
begin

section \<open>JavaScript values as the components see them\<close>

text \<open>
  The components exchange JSON with the backend and build their chat messages as object
  literals, so a value of the program is a JSON value, \<open>undefined\<close>, or a \<open>Date\<close> object.
  \<open>Date v\<close> stands for \<open>new Date(v)\<close>; \<open>new Date()\<close> at clock reading \<open>t\<close> (milliseconds) is
  \<open>Date (Num t)\<close>. An object is its list of key/value pairs.
\<close>

datatype jsval =
    Undefined
  | Null
  | Bool bool
  | Num real
  | Str string
  | Arr "jsval list"
  | Obj "(string \<times> jsval) list"
  | Date jsval

text \<open>Truthiness, as \<open>!v\<close>, \<open>v || w\<close> and \<open>if (v)\<close> evaluate it.\<close>

fun truthy :: "jsval \<Rightarrow> bool" where
  "truthy Undefined = False"
| "truthy Null = False"
| "truthy (Bool b) = b"
| "truthy (Num x) = (x \<noteq> 0)"
| "truthy (Str s) = (s \<noteq> [])"
| "truthy (Arr xs) = True"
| "truthy (Obj kvs) = True"
| "truthy (Date v) = True"

text \<open>\<open>a || b\<close>.\<close>

definition or_else :: "jsval \<Rightarrow> jsval \<Rightarrow> jsval" where
  "or_else a b = (if truthy a then a else b)"

text \<open>
  An optional string field of a TypeScript interface (\<open>message?: string\<close>) is a
  \<open>string option\<close>; it is truthy when present and not the empty string.
\<close>

definition present :: "string option \<Rightarrow> bool" where
  "present f = (case f of None \<Rightarrow> False | Some s \<Rightarrow> s \<noteq> [])"

text \<open>\<open>f || d\<close> for an optional string field \<open>f\<close> and a string \<open>d\<close>.\<close>

definition str_or :: "string option \<Rightarrow> string \<Rightarrow> string" where
  "str_or f d = (case f of None \<Rightarrow> d | Some s \<Rightarrow> if s = [] then d else s)"

text \<open>
  Reading a property. \<open>v.k\<close> throws a \<open>TypeError\<close> when \<open>v\<close> is \<open>null\<close> or \<open>undefined\<close>:
  that is \<open>None\<close>. An object gives the value of its key, or \<open>undefined\<close>; an array and a
  string have a \<open>length\<close>; for the other property names that the components read
  (none of them a method of a prototype) every other value gives \<open>undefined\<close>.
  \<open>v?.k\<close> is \<open>undefined\<close> where \<open>v.k\<close> throws.
\<close>

definition get :: "jsval \<Rightarrow> string \<Rightarrow> jsval option" where
  "get v k =
     (case v of
        Undefined \<Rightarrow> None
      | Null \<Rightarrow> None
      | Obj kvs \<Rightarrow> Some (case map_of kvs k of None \<Rightarrow> Undefined | Some x \<Rightarrow> x)
      | Arr xs \<Rightarrow> Some (if k = ''length'' then Num (of_nat (length xs)) else Undefined)
      | Str s \<Rightarrow> Some (if k = ''length'' then Num (of_nat (length s)) else Undefined)
      | _ \<Rightarrow> Some Undefined)"

definition opt_get :: "jsval \<Rightarrow> string \<Rightarrow> jsval" where
  "opt_get v k = (case get v k of None \<Rightarrow> Undefined | Some x \<Rightarrow> x)"

text \<open>\<open>typeof v\<close>.\<close>

definition js_typeof :: "jsval \<Rightarrow> string" where
  "js_typeof v =
     (case v of
        Undefined \<Rightarrow> ''undefined''
      | Null \<Rightarrow> ''object''
      | Bool b \<Rightarrow> ''boolean''
      | Num x \<Rightarrow> ''number''
      | Str s \<Rightarrow> ''string''
      | _ \<Rightarrow> ''object'')"

text \<open>
  Strings are lists of characters, and a character is a code unit below 256: the texts
  of this development are those of that range. \<open>s.trim()\<close> drops the white space and the
  line terminators at both ends; below 256 these are the tab, the line feed, the vertical
  tab, the form feed, the carriage return, the space and the no-break space.
  \<open>n.toString()\<close> writes a natural number in decimal, and \<open>s.includes(t)\<close> looks for \<open>t\<close>
  as a contiguous part of \<open>s\<close>.
\<close>

definition is_space :: "char \<Rightarrow> bool" where
  "is_space c \<longleftrightarrow>
     c \<in> set [CHR '' '', CHR 0x09, CHR 0x0A, CHR 0x0B, CHR 0x0C, CHR 0x0D, CHR 0xA0]"

definition trim :: "string \<Rightarrow> string" where
  "trim s = rev (dropWhile is_space (rev (dropWhile is_space s)))"

function decimal :: "nat \<Rightarrow> string" where
  "decimal n =
     (if n < 10 then [''0123456789'' ! n]
      else decimal (n div 10) @ [''0123456789'' ! (n mod 10)])"
  by pat_completeness auto
termination
  by (relation "measure id") auto

declare decimal.simps [simp del]

fun starts_with :: "string \<Rightarrow> string \<Rightarrow> bool" where
  "starts_with s [] = True"
| "starts_with [] (c # t) = False"
| "starts_with (a # s) (c # t) = (a = c \<and> starts_with s t)"

fun str_includes :: "string \<Rightarrow> string \<Rightarrow> bool" where
  "str_includes [] t = (t = [])"
| "str_includes (c # s) t = (starts_with (c # s) t \<or> str_includes s t)"

text \<open>
  What the components use of the JavaScript engine and cannot be read off their source:
  \<open>JSON.parse\<close> (\<open>None\<close> when it throws), the conversion of a value to a string that
  \<open>new Error(v)\<close> and a template literal perform, the message of the \<open>TypeError\<close> that the
  engine throws when the property named cannot be read or called, and the comparison
  \<open>v > 0\<close> for a \<open>v\<close> that is not a number.
\<close>

record js_runtime =
  JSON_parse :: "string \<Rightarrow> jsval option"
  to_text :: "jsval \<Rightarrow> string"
  type_error :: "string \<Rightarrow> string"
  coerced_positive :: "jsval \<Rightarrow> bool"

section \<open>HTTP responses\<close>

text \<open>
  What \<open>await fetch(...)\<close> gives a caller: the promise rejects with an error message, or
  resolves to a response. Of a response the components read \<open>ok\<close>, \<open>status\<close>, the
  \<open>content-type\<close> header, and the body through \<open>response.json()\<close>, which rejects (with a
  \<open>SyntaxError\<close>, of which \<open>NotJson\<close> holds the message) when the body is not JSON and
  resolves to the parsed value otherwise.
\<close>

datatype body = NotJson string | Json jsval

record response =
  ok :: bool
  http_status :: nat
  content_type :: "string option"
  body :: body

datatype fetch_result = Rejected string | Resolved response

section \<open>Projects and the props the components share\<close>

text \<open>
  \<open>interface Project\<close>, with the two fields the components read (\<open>id\<close> and \<open>name\<close>).
  Every component receives the selected project; \<open>ChatInterface\<close> and \<open>DashboardPage\<close> also
  hold \<open>isEmbeddingProcessing\<close>. A component is a record that extends its props with its
  \<open>useState\<close> cells, so that \<open>selectedProject\<close> reads the same way in each.
\<close>

record Project =
  proj_id :: string
  proj_name :: string

record project_prop =
  selectedProject :: "Project option"

record embedding_prop = project_prop +
  isEmbeddingProcessing :: bool

text \<open>\<open>selectedProject?.id\<close>, the dependency of the effects keyed by project.\<close>

definition project_key :: "'a project_prop_scheme \<Rightarrow> string option" where
  "project_key s = map_option proj_id (selectedProject s)"

section \<open>The purchase-order sidebar: WebSocket messages\<close>

text \<open>
  \<open>interface PurchaseOrder\<close>. The status is a string: the handler stores the status of
  the event with \<open>status as any\<close>, whatever it is.
\<close>

record PurchaseOrder =
  po_number :: string
  vendor_name :: string
  total_amount :: real
  status :: string
  needs_approval :: bool
  pdf_path :: string
  order_date :: string
  created_at :: string
  materials_count :: "real option"

text \<open>\<open>interface WebSocketMessage\<close>; the discriminating field \<open>type\<close> is \<open>msg_type\<close> here.\<close>

record WebSocketMessage =
  msg_type :: string
  ws_project_id :: "string option"
  ws_workflow_id :: "string option"
  ws_po_number :: "string option"
  ws_step :: "string option"
  ws_message :: "string option"
  ws_error :: "string option"
  ws_status :: "string option"
  ws_timestamp :: "string option"

text \<open>
  The state of \<open>POSidebar\<close> that \<open>handleWebSocketMessage\<close> writes: the two lists, the
  workflow banner, the last workflow error (date and text), and the refetches it has
  scheduled with \<open>setTimeout\<close> (their delays in milliseconds). Toasts and console output are
  notifications to the user and are not part of the state.
\<close>

record po_lists = project_prop +
  todayPOs :: "PurchaseOrder list"
  selectedDatePOs :: "PurchaseOrder list"
  workflowStatus :: "string option"
  lastWorkflowError :: "(string \<times> string) option"
  refetch_timers :: "nat list"

text \<open>The callback of both \<open>prev.map\<close> calls in the \<open>po_status_update\<close> case.\<close>

definition update_status :: "string \<Rightarrow> string \<Rightarrow> PurchaseOrder \<Rightarrow> PurchaseOrder" where
  "update_status num st po = (if po_number po = num then po\<lparr>status := st\<rparr> else po)"

text \<open>
  \<open>handleWebSocketMessage\<close>, one branch per \<open>case\<close> of its \<open>switch\<close>. The first argument
  is \<open>new Date().toLocaleDateString()\<close> at the time of the call.
\<close>

definition handleWebSocketMessage ::
  "string \<Rightarrow> WebSocketMessage \<Rightarrow> 'a po_lists_scheme \<Rightarrow> 'a po_lists_scheme" where
  "handleWebSocketMessage errorDate data s =
    (if msg_type data = ''workflow_progress'' then
       s\<lparr>workflowStatus := Some (str_or (ws_message data) ''Processing...'')\<rparr>
     else if msg_type data = ''workflow_complete'' then
       s\<lparr>workflowStatus := None, lastWorkflowError := None,
         refetch_timers := refetch_timers s @ [1000]\<rparr>
     else if msg_type data = ''workflow_error'' then
       s\<lparr>workflowStatus := None,
         lastWorkflowError :=
           Some (errorDate, str_or (ws_error data) (str_or (ws_message data) ''Unknown error''))\<rparr>
     else if msg_type data = ''po_status_update'' then
       (if present (ws_po_number data) \<and> present (ws_status data) then
          s\<lparr>todayPOs := map (update_status (the (ws_po_number data)) (the (ws_status data)))
                           (todayPOs s),
            selectedDatePOs := map (update_status (the (ws_po_number data)) (the (ws_status data)))
                           (selectedDatePOs s)\<rparr>
        else s)
     else s)"

text \<open>
  \<open>POSidebar\<close> keeps no chat messages: they are state of \<open>ChatInterface\<close>, which the
  handler, a closure of \<open>POSidebar\<close>, has no setter for. A screen showing both components
  holds the two states side by side, and a WebSocket message reaches the sidebar's only.
\<close>

record screen =
  chat_messages :: "jsval list"
  sidebar :: po_lists

definition deliver :: "string \<Rightarrow> WebSocketMessage \<Rightarrow> screen \<Rightarrow> screen" where
  "deliver errorDate data sc = sc\<lparr>sidebar := handleWebSocketMessage errorDate data (sidebar sc)\<rparr>"

text \<open>Two records agree on every field but the status.\<close>

definition same_but_status :: "PurchaseOrder \<Rightarrow> PurchaseOrder \<Rightarrow> bool" where
  "same_but_status a b \<longleftrightarrow>
     po_number a = po_number b \<and> vendor_name a = vendor_name b \<and>
     total_amount a = total_amount b \<and> needs_approval a = needs_approval b \<and>
     pdf_path a = pdf_path b \<and> order_date a = order_date b \<and>
     created_at a = created_at b \<and> materials_count a = materials_count b"

text \<open>Sample data for the concrete checks.\<close>

definition sample_po :: "string \<Rightarrow> string \<Rightarrow> string \<Rightarrow> PurchaseOrder" where
  "sample_po num vendor st =
     \<lparr>po_number = num, vendor_name = vendor, total_amount = 100, status = st,
      needs_approval = True, pdf_path = ''/po.pdf'', order_date = ''2025-01-01'',
      created_at = ''2025-01-01T00:00:00'', materials_count = None\<rparr>"

definition sample_lists :: po_lists where
  "sample_lists =
     \<lparr>selectedProject = Some \<lparr>proj_id = ''p1'', proj_name = ''Retail''\<rparr>,
      todayPOs = [sample_po ''PO-1'' ''Acme'' ''generated'',
                  sample_po ''PO-2'' ''Bolt'' ''pending_approval''],
      selectedDatePOs = [sample_po ''PO-2'' ''Bolt'' ''pending_approval''],
      workflowStatus = None, lastWorkflowError = None, refetch_timers = []\<rparr>"

definition po_event :: "string \<Rightarrow> string \<Rightarrow> WebSocketMessage" where
  "po_event num st =
     \<lparr>msg_type = ''po_status_update'', ws_project_id = None, ws_workflow_id = None,
      ws_po_number = Some num, ws_step = None, ws_message = None, ws_error = None,
      ws_status = Some st, ws_timestamp = None\<rparr>"

section \<open>The purchase-order sidebar: the component and its runtime\<close>

text \<open>
  A function of a React component closes over the values of the render that created it.
  \<open>connectWebSocket\<close> reads \<open>selectedProject\<close> and \<open>connectionRetries\<close>; it is created by
  \<open>useCallback\<close> and called from two places only: the connection effect, in the first
  render or in one whose project id has just changed (so \<open>useCallback\<close> has returned the
  function of that very render), and the reconnect timer of a socket the same function
  opened, where the name \<open>connectWebSocket\<close> is the binding of that same render. A call is
  therefore determined by the pair of values its render had, and so are the handlers of
  the socket it opens and the timer they arm.
\<close>

record conn_closure =
  cl_project :: "Project option"
  cl_retries :: nat

datatype readyState = CONNECTING | OPEN | CLOSING | CLOSED

text \<open>
  A \<open>WebSocket\<close> object: the project id and token of its URL, the closure its handlers
  belong to, and its \<open>readyState\<close>. A pending \<open>setTimeout\<close> of \<open>ws.onclose\<close>: its delay and
  the closure its callback belongs to.
\<close>

record websocket =
  url_project :: string
  url_token :: string
  ws_closure :: conn_closure
  ws_readyState :: readyState

record reconnect_timer =
  rt_delay :: nat
  rt_closure :: conn_closure

text \<open>
  An interval of the polling effect: the id \<open>setInterval\<close> returned, its period, and the
  values its callback closes over.
\<close>

record poll_interval =
  pi_id :: nat
  pi_period :: nat
  pi_isConnected :: bool
  pi_project :: "Project option"
  pi_date :: string

text \<open>A request for purchase orders: project id and order date.\<close>

record po_request =
  rq_project :: string
  rq_date :: string

text \<open>
  \<open>POSidebar\<close>: its prop, its \<open>useState\<close> cells, and the objects of the browser that its
  closures hold on to. \<open>selectedDate\<close> and \<open>today\<close> are dates in the form \<open>yyyy-MM-dd\<close>, the
  only form the component compares and sends. \<open>ws_cleanup\<close> is the cleanup function the
  connection effect returned last: \<open>Some w\<close> when there is one, \<open>w\<close> being the value of
  \<open>wsConnection\<close> in the render of that effect run. \<open>ws_dep\<close> and \<open>poll_dep\<close> are the
  dependency values of the last render (\<open>selectedProject?.id\<close> and \<open>isConnected\<close>);
  \<open>poll_cleanup\<close> is the interval id the polling cleanup clears.
\<close>

record POSidebar = po_lists +
  selectedDate :: string
  wsConnection :: "nat option"
  isConnected :: bool
  connectionRetries :: nat
  access_token :: "string option"
  today :: string
  mounted :: bool
  sockets :: "websocket list"
  reconnects :: "reconnect_timer list"
  ws_cleanup :: "nat option option"
  ws_dep :: "string option"
  intervals :: "poll_interval list"
  next_interval :: nat
  poll_cleanup :: "nat option"
  poll_dep :: bool
  po_requests :: "po_request list"

text \<open>\<open>ws.close()\<close> on socket \<open>w\<close>: an open or connecting socket starts closing.\<close>

definition ws_close :: "nat \<Rightarrow> POSidebar \<Rightarrow> POSidebar" where
  "ws_close w s =
     (if w < length (sockets s) \<and> ws_readyState (sockets s ! w) \<in> {CONNECTING, OPEN}
      then s\<lparr>sockets := (sockets s)[w := (sockets s ! w)\<lparr>ws_readyState := CLOSING\<rparr>]\<rparr>
      else s)"

text \<open>
  \<open>connectWebSocket\<close>, called in closure \<open>cl\<close>: no project or no token, no socket;
  otherwise \<open>new WebSocket(wsUrl)\<close>, whose handlers belong to \<open>cl\<close>.
\<close>

definition connectWebSocket :: "conn_closure \<Rightarrow> POSidebar \<Rightarrow> POSidebar" where
  "connectWebSocket cl s =
     (case cl_project cl of
        None \<Rightarrow> s
      | Some p \<Rightarrow>
          if \<not> present (access_token s) then s
          else s\<lparr>sockets := sockets s @
                 [\<lparr>url_project = proj_id p, url_token = the (access_token s),
                   ws_closure = cl, ws_readyState = CONNECTING\<rparr>]\<rparr>)"

text \<open>\<open>ws.onopen\<close> of socket \<open>i\<close>.\<close>

definition onopen :: "nat \<Rightarrow> POSidebar \<Rightarrow> POSidebar" where
  "onopen i s =
     s\<lparr>sockets := (sockets s)[i := (sockets s ! i)\<lparr>ws_readyState := OPEN\<rparr>],
       isConnected := True, wsConnection := Some i, connectionRetries := 0\<rparr>"

text \<open>
  \<open>ws.onclose\<close> of socket \<open>i\<close>. The test and the delay read \<open>selectedProject\<close> and
  \<open>connectionRetries\<close> of the closure, as the source does.
\<close>

definition backoff :: "nat \<Rightarrow> nat" where
  "backoff retries = min (1000 * 2 ^ retries) 30000"

definition onclose :: "nat \<Rightarrow> POSidebar \<Rightarrow> POSidebar" where
  "onclose i s =
     (let cl = ws_closure (sockets s ! i);
          s1 = s\<lparr>sockets := (sockets s)[i := (sockets s ! i)\<lparr>ws_readyState := CLOSED\<rparr>],
                 isConnected := False, wsConnection := None\<rparr>
      in if cl_project cl \<noteq> None \<and> cl_retries cl < 5
         then s1\<lparr>reconnects := reconnects s1 @ [\<lparr>rt_delay = backoff (cl_retries cl), rt_closure = cl\<rparr>]\<rparr>
         else s1)"

text \<open>
  The callback of the reconnect timer \<open>k\<close>:
  \<open>setConnectionRetries(prev => prev + 1); connectWebSocket()\<close>.
\<close>

definition reconnect_fires :: "nat \<Rightarrow> POSidebar \<Rightarrow> POSidebar" where
  "reconnect_fires k s =
     connectWebSocket (rt_closure (reconnects s ! k))
       (s\<lparr>reconnects := take k (reconnects s) @ drop (Suc k) (reconnects s),
          connectionRetries := connectionRetries s + 1\<rparr>)"

text \<open>
  The connection effect, \<open>useEffect(..., [selectedProject?.id])\<close>, run for the render
  \<open>snap\<close>: first the cleanup of its previous run, then its body. The cleanup it returns
  closes over \<open>wsConnection\<close> of \<open>snap\<close>.
\<close>

definition ws_effect :: "POSidebar \<Rightarrow> POSidebar \<Rightarrow> POSidebar" where
  "ws_effect snap s =
     (let s1 = (case ws_cleanup s of Some (Some w) \<Rightarrow> ws_close w s | _ \<Rightarrow> s)
      in case selectedProject snap of
           None \<Rightarrow>
             (case wsConnection snap of
                Some w \<Rightarrow> (ws_close w s1)\<lparr>wsConnection := None, isConnected := False,
                                          ws_cleanup := None\<rparr>
              | None \<Rightarrow> s1\<lparr>ws_cleanup := None\<rparr>)
         | Some p \<Rightarrow>
             (connectWebSocket \<lparr>cl_project = Some p, cl_retries = connectionRetries snap\<rparr> s1)
               \<lparr>ws_cleanup := Some (wsConnection snap)\<rparr>)"

text \<open>
  \<open>fetchTodayPOs(); if (!isToday(selectedDate)) fetchPOsForDate(...)\<close> of a closure with
  project \<open>p\<close> and date \<open>d\<close>: both functions return at once without a project.
\<close>

definition fetch_pos :: "Project option \<Rightarrow> string \<Rightarrow> POSidebar \<Rightarrow> POSidebar" where
  "fetch_pos p d s =
     (case p of
        None \<Rightarrow> s
      | Some pr \<Rightarrow>
          s\<lparr>po_requests := po_requests s @
               [\<lparr>rq_project = proj_id pr, rq_date = today s\<rparr>] @
               (if d \<noteq> today s then [\<lparr>rq_project = proj_id pr, rq_date = d\<rparr>] else [])\<rparr>)"

text \<open>\<open>clearInterval(i)\<close>.\<close>

definition clearInterval :: "nat \<Rightarrow> POSidebar \<Rightarrow> POSidebar" where
  "clearInterval i s = s\<lparr>intervals := filter (\<lambda>v. pi_id v \<noteq> i) (intervals s)\<rparr>"

text \<open>
  The polling effect, \<open>useEffect(..., [selectedProject, selectedDate, isConnected])\<close>, run for
  the render \<open>snap\<close>: the cleanup of its previous run, then its body.
\<close>

definition poll_effect :: "POSidebar \<Rightarrow> POSidebar \<Rightarrow> POSidebar" where
  "poll_effect snap s =
     (let s1 = (case poll_cleanup s of Some i \<Rightarrow> clearInterval i s | None \<Rightarrow> s)
      in case selectedProject snap of
           None \<Rightarrow> s1\<lparr>poll_cleanup := None\<rparr>
         | Some p \<Rightarrow>
             (fetch_pos (Some p) (selectedDate snap) s1)
               \<lparr>intervals := intervals s1 @
                  [\<lparr>pi_id = next_interval s1, pi_period = 15000,
                    pi_isConnected = isConnected snap, pi_project = Some p,
                    pi_date = selectedDate snap\<rparr>],
                next_interval := Suc (next_interval s1),
                poll_cleanup := Some (next_interval s1)\<rparr>)"

text \<open>The callback of interval \<open>v\<close>: \<open>if (!isConnected) { fetchTodayPOs(); ... }\<close>.\<close>

definition poll_tick :: "poll_interval \<Rightarrow> POSidebar \<Rightarrow> POSidebar" where
  "poll_tick v s = (if \<not> pi_isConnected v then fetch_pos (pi_project v) (pi_date v) s else s)"

text \<open>
  One render and the effects it triggers. The connection effect runs when
  \<open>selectedProject?.id\<close> differs from the last render's; the polling effect runs when
  \<open>isConnected\<close> does, or when \<open>force\<close> says that \<open>selectedProject\<close> or \<open>selectedDate\<close> is a new
  object. Both effects read the render \<open>snap\<close>, not the state that the other has written
  meanwhile. An effect that sets state causes a second render: \<open>commit\<close> is two passes, and
  after the second nothing is left to run.
\<close>

definition render_pass :: "bool \<Rightarrow> POSidebar \<Rightarrow> POSidebar" where
  "render_pass force s =
     (let snap = s;
          s1 = (if project_key snap \<noteq> ws_dep s
                then (ws_effect snap s)\<lparr>ws_dep := project_key snap\<rparr> else s);
          s2 = (if force \<or> isConnected snap \<noteq> poll_dep s1
                then (poll_effect snap s1)\<lparr>poll_dep := isConnected snap\<rparr> else s1)
      in s2)"

definition commit :: "bool \<Rightarrow> POSidebar \<Rightarrow> POSidebar" where
  "commit force s = (if mounted s then render_pass False (render_pass force s) else s)"

text \<open>
  What can happen to a mounted sidebar: the parent passes a project, the user picks a
  date, the calendar day changes, a socket opens, closes or delivers a message (parsed,
  or \<open>None\<close> when \<open>JSON.parse\<close> threw), a reconnect timer or a polling interval fires, the
  component unmounts. An event that names a socket, timer or interval that does not exist,
  or a socket in the wrong state, does nothing.
\<close>

datatype sidebar_event =
    SetProject "Project option"
  | SetDate string
  | DayChanges string
  | SocketOpens nat
  | SocketCloses nat
  | SocketMessage nat "WebSocketMessage option"
  | ReconnectFires nat
  | PollTick nat
  | Unmount

fun sidebar_step :: "sidebar_event \<Rightarrow> POSidebar \<Rightarrow> POSidebar" where
  "sidebar_step (SetProject p) s = commit True (s\<lparr>selectedProject := p\<rparr>)"
| "sidebar_step (SetDate d) s = commit True (s\<lparr>selectedDate := d\<rparr>)"
| "sidebar_step (DayChanges d) s = s\<lparr>today := d\<rparr>"
| "sidebar_step (SocketOpens i) s =
     (if i < length (sockets s) \<and> ws_readyState (sockets s ! i) = CONNECTING
      then commit False (onopen i s) else s)"
| "sidebar_step (SocketCloses i) s =
     (if i < length (sockets s) \<and> ws_readyState (sockets s ! i) \<noteq> CLOSED
      then commit False (onclose i s) else s)"
| "sidebar_step (SocketMessage i m) s =
     (if i < length (sockets s) \<and> ws_readyState (sockets s ! i) = OPEN
      then (case m of None \<Rightarrow> s | Some data \<Rightarrow> handleWebSocketMessage (today s) data s)
      else s)"
| "sidebar_step (ReconnectFires k) s =
     (if k < length (reconnects s) then commit False (reconnect_fires k s) else s)"
| "sidebar_step (PollTick i) s =
     (case filter (\<lambda>v. pi_id v = i) (intervals s) of
        [] \<Rightarrow> s
      | v # _ \<Rightarrow> poll_tick v s)"
| "sidebar_step Unmount s =
     (if mounted s then
        (let s1 = (case ws_cleanup s of Some (Some w) \<Rightarrow> ws_close w s | _ \<Rightarrow> s);
             s2 = (case poll_cleanup s1 of Some i \<Rightarrow> clearInterval i s1 | None \<Rightarrow> s1)
         in s2\<lparr>mounted := False, ws_cleanup := None, poll_cleanup := None\<rparr>)
      else s)"

fun sidebar_run :: "sidebar_event list \<Rightarrow> POSidebar \<Rightarrow> POSidebar" where
  "sidebar_run [] s = s"
| "sidebar_run (e # es) s = sidebar_run es (sidebar_step e s)"

text \<open>
  Mounting: the \<open>useState\<close> initial values, then the first render, in which every effect
  runs. Without a project and without a connection the body of the connection effect does
  nothing and returns no cleanup, so running it is the same as finding its dependency
  unchanged from \<open>None\<close>.
\<close>

definition sidebar_mount :: "Project option \<Rightarrow> string option \<Rightarrow> string \<Rightarrow> POSidebar" where
  "sidebar_mount p tok day =
     commit True
       \<lparr>selectedProject = p, todayPOs = [], selectedDatePOs = [], workflowStatus = None,
        lastWorkflowError = None, refetch_timers = [],
        selectedDate = day, wsConnection = None, isConnected = False, connectionRetries = 0,
        access_token = tok, today = day, mounted = True, sockets = [], reconnects = [],
        ws_cleanup = None, ws_dep = None, intervals = [], next_interval = 0,
        poll_cleanup = None, poll_dep = False, po_requests = []\<rparr>"

section \<open>The dashboard: polling the embedding status\<close>




















section \<open>Invariants of the polling effects\<close>

text \<open>
  What every state of the sidebar satisfies between two events. \<open>poll_loose\<close> is what is
  left of it while an event handler has written state and the effects have not run yet:
  the cleanup that is registered clears exactly the intervals that are active.
  \<open>poll_shape c\<close> says in addition that the active interval is the one the effect made for
  the present project and date, with \<open>isConnected = c\<close> in its closure.
\<close>

definition poll_loose :: "POSidebar \<Rightarrow> bool" where
  "poll_loose s \<longleftrightarrow>
     (\<forall>v \<in> set (intervals s). pi_id v < next_interval s) \<and>
     (if mounted s
      then (intervals s = [] \<and> poll_cleanup s = None) \<or>
           (\<exists>v. intervals s = [v] \<and> poll_cleanup s = Some (pi_id v))
      else intervals s = [])"

definition poll_shape :: "bool \<Rightarrow> POSidebar \<Rightarrow> bool" where
  "poll_shape c s \<longleftrightarrow>
     (\<forall>v \<in> set (intervals s). pi_id v < next_interval s) \<and>
     (if mounted s
      then poll_dep s = c \<and>
           (case selectedProject s of
              None \<Rightarrow> intervals s = [] \<and> poll_cleanup s = None
            | Some p \<Rightarrow> \<exists>i. poll_cleanup s = Some i \<and>
                intervals s = [\<lparr>pi_id = i, pi_period = 15000, pi_isConnected = c,
                                pi_project = Some p, pi_date = selectedDate s\<rparr>])
      else intervals s = [])"

definition poll_ok :: "POSidebar \<Rightarrow> bool" where
  "poll_ok s \<longleftrightarrow> poll_shape (isConnected s) s \<and> (mounted s \<longrightarrow> ws_dep s = project_key s)"




text \<open>A project for the concrete checks.\<close>

definition retail :: Project where "retail = \<lparr>proj_id = ''p1'', proj_name = ''Retail''\<rparr>"

text \<open>
  The connection cells agree in every state the sidebar reaches: \<open>isConnected\<close> holds
  exactly when \<open>wsConnection\<close> holds a socket, and that socket exists.
\<close>

definition conn_ok :: "POSidebar \<Rightarrow> bool" where
  "conn_ok s \<longleftrightarrow>
     isConnected s = (wsConnection s \<noteq> None) \<and>
     (\<forall>w. wsConnection s = Some w \<longrightarrow> w < length (sockets s))"

text \<open>A second project for the concrete checks.\<close>

definition wholesale :: Project where "wholesale = \<lparr>proj_id = ''p2'', proj_name = ''Wholesale''\<rparr>"

section \<open>The chat: loading a conversation\<close>

text \<open>
  The callback of \<open>data.messages.map\<close> in \<open>loadConversationMessages\<close>, which turns a stored
  message record into a \<open>Message\<close>: its statements that decode \<open>queryResult\<close> and
  \<open>metadata\<close>, then the rest, which reads the two and the record. Reading
  \<open>msg.query_result\<close> throws when \<open>msg\<close> is \<open>null\<close> or \<open>undefined\<close>; once it has not, no later
  \<open>msg.k\<close> can, and every other property is read from a value that \<open>||\<close> has made truthy
  or through \<open>?.\<close>, so these reads are written with \<open>opt_get\<close>.
\<close>

definition decode_query_result :: "js_runtime \<Rightarrow> jsval \<Rightarrow> jsval" where
  "decode_query_result rt qr0 =
     (case qr0 of
        Str s \<Rightarrow> (case JSON_parse rt s of Some v \<Rightarrow> v | None \<Rightarrow> Null)
      | _ \<Rightarrow> qr0)"

definition decode_metadata :: "js_runtime \<Rightarrow> jsval \<Rightarrow> jsval" where
  "decode_metadata rt m =
     (let md0 = or_else m (Obj []);
          md1 = (case md0 of
                   Str s \<Rightarrow> if s \<noteq> []
                            then (case JSON_parse rt s of Some v \<Rightarrow> v | None \<Rightarrow> Null)
                            else md0
                 | _ \<Rightarrow> md0)
      in if \<not> truthy md1 \<or> js_typeof md1 \<noteq> ''object'' then Obj [] else md1)"

definition build_message :: "jsval \<Rightarrow> jsval \<Rightarrow> jsval \<Rightarrow> jsval" where
  "build_message msg queryResult metadata =
     (let visualizationData = or_else (opt_get metadata ''_pending_viz_data'') (Obj []);
          followupSuggestions = or_else (opt_get metadata ''followup_suggestions'') (Arr []);
          pendingVizData = or_else (opt_get metadata ''_pending_viz_data'') (Obj []);
          chartData = opt_get metadata ''chart'';
          suggestionsContainer = or_else (opt_get pendingVizData ''suggestions'') (Obj []);
          chartSuggestions = or_else (opt_get suggestionsContainer ''suggestions'') (Arr []);
          dataInsights =
            or_else (or_else
              (opt_get (opt_get (opt_get pendingVizData ''suggestions'') ''metadata'') ''data_insights'')
              (opt_get metadata ''data_insights''))
              (Str []);
          isDirectChartGeneration = or_else (opt_get metadata ''is_direct_generation'') (Bool False);
          suggestedQuestions =
            or_else (or_else (or_else
              (opt_get metadata ''suggested_next_questions'')
              (opt_get metadata ''suggested_questions''))
              (opt_get pendingVizData ''suggested_questions''))
              (Arr [])
      in Obj
       [(''id'', opt_get msg ''id''),
        (''content'', opt_get msg ''content''),
        (''sender'', Str (if opt_get msg ''role'' = Str ''user'' then ''user'' else ''ai'')),
        (''timestamp'', Date (opt_get msg ''created_at'')),
        (''sqlQuery'', opt_get msg ''sql_query''),
        (''queryResult'', queryResult),
        (''intent'', opt_get msg ''intent''),
        (''tables_used'', opt_get msg ''tables_used''),
        (''suggestion'', suggestedQuestions),
        (''business_rules_applied'', opt_get msg ''business_rules_applied''),
        (''reference_context'', opt_get msg ''reference_context''),
        (''sample_data'',
           or_else (or_else (opt_get queryResult ''sample_data'') (opt_get queryResult ''data''))
             (opt_get msg ''sample_data'')),
        (''total_rows'',
           or_else (or_else (opt_get queryResult ''rows_count'') (opt_get queryResult ''row_count''))
             (opt_get msg ''rows_count'')),
        (''retrieval_stats'', opt_get msg ''retrieval_stats''),
        (''context_sources'', opt_get msg ''context_sources''),
        (''chart'', if truthy chartData then chartData else Undefined),
        (''chart_suggestions'', or_else chartSuggestions (Arr [])),
        (''data_insights'',
           or_else (or_else (or_else dataInsights
              (opt_get (opt_get visualizationData ''metadata'') ''data_insights''))
              (opt_get metadata ''data_insights''))
              (Str [])),
        (''requires_chart_selection'',
           Bool (truthy (opt_get chartSuggestions ''length'') \<or>
                 truthy (opt_get (opt_get pendingVizData ''suggestions'') ''length''))),
        (''direct_chart_generation'', isDirectChartGeneration),
        (''followup_suggestions'', followupSuggestions)])"

definition format_message :: "js_runtime \<Rightarrow> jsval \<Rightarrow> jsval option" where
  "format_message rt msg =
     (case get msg ''query_result'' of
        None \<Rightarrow> None
      | Some qr0 \<Rightarrow>
          Some (build_message msg (decode_query_result rt qr0)
                  (decode_metadata rt (opt_get msg ''metadata''))))"

text \<open>A record with one field replaced, and the values that are objects to \<open>typeof\<close>.\<close>

definition with_field :: "string \<Rightarrow> jsval \<Rightarrow> (string \<times> jsval) list \<Rightarrow> jsval" where
  "with_field k v kvs = Obj ((k, v) # filter (\<lambda>kv. fst kv \<noteq> k) kvs)"

fun is_object :: "jsval \<Rightarrow> bool" where
  "is_object (Obj kvs) = True"
| "is_object (Arr xs) = True"
| "is_object v = False"

text \<open>
  A JSON text and an engine for the concrete checks: the engine parses that one text and
  rejects every other.
\<close>

definition chart_json :: string where
  "chart_json = ''{'' @ [CHR 0x22] @ ''chart'' @ [CHR 0x22] @ '':1}''"

definition test_rt :: js_runtime where
  "test_rt = \<lparr>JSON_parse = (\<lambda>s. if s = chart_json then Some (Obj [(''chart'', Num 1)]) else None),
     to_text = (\<lambda>v. case v of Str s \<Rightarrow> s | _ \<Rightarrow> ''?''),
     type_error = (\<lambda>k. ''Cannot read '' @ k),
     coerced_positive = (\<lambda>v. False)\<rparr>"

section \<open>The chat: sending a message\<close>

text \<open>
  What \<open>handleSendMessage\<close> closes over: the values that \<open>message\<close>, \<open>selectedProject\<close>,
  \<open>isTyping\<close>, \<open>isEmbeddingProcessing\<close> and \<open>currentConversationId\<close> had in the render that
  created it.
\<close>

record send_closure =
  c_message :: string
  c_project :: "Project option"
  c_isTyping :: bool
  c_processing :: bool
  c_conversation :: "string option"

text \<open>A \<open>/chat/query\<close> request in flight: the closure that awaits it, and what was sent.\<close>

record chat_request =
  cq_closure :: send_closure
  cq_message :: string
  cq_project_id :: string
  cq_conversation_id :: "string option"
  cq_token :: string

text \<open>
  A request for the messages of a conversation in flight, with the project and the
  processing flag its closure holds.
\<close>

record load_request =
  ld_conversation :: string
  ld_project :: "Project option"
  ld_processing :: bool

text \<open>
  \<open>ChatInterface\<close>: its props, its \<open>useState\<close> cells, the token in local storage, the
  requests in flight, and the calls of \<open>handleSendMessage\<close> that a click on a suggestion has
  put behind \<open>setTimeout\<close>, each with the closure of the render of the click.
\<close>

record ChatInterface = embedding_prop +
  currentConversationId :: "string option"
  messages :: "jsval list"
  message :: string
  isTyping :: bool
  error :: "string option"
  chat_token :: "string option"
  requests :: "chat_request list"
  loads :: "load_request list"
  deferred :: "send_closure list"

definition closure_of :: "ChatInterface \<Rightarrow> send_closure" where
  "closure_of s =
     \<lparr>c_message = message s, c_project = selectedProject s, c_isTyping = isTyping s,
      c_processing = isEmbeddingProcessing s, c_conversation = currentConversationId s\<rparr>"

text \<open>The fields of a \<open>Message\<close> that the claims speak of.\<close>

definition sender :: "jsval \<Rightarrow> jsval" where
  "sender m = opt_get m ''sender''"

definition content :: "jsval \<Rightarrow> jsval" where
  "content m = opt_get m ''content''"

definition intent :: "jsval \<Rightarrow> jsval" where
  "intent m = opt_get m ''intent''"

text \<open>The optimistic \<open>userMessage\<close>, at clock reading \<open>now\<close>.\<close>

definition userMessage :: "send_closure \<Rightarrow> nat \<Rightarrow> jsval" where
  "userMessage cl now =
     Obj [(''id'', Str (decimal now)),
          (''content'', Str (trim (c_message cl))),
          (''sender'', Str ''user''),
          (''timestamp'', Date (Num (of_nat now)))]"

text \<open>The \<open>errorResponse\<close> of the \<open>catch\<close> branch for an error with message \<open>msg\<close>.\<close>

definition errorContent :: "send_closure \<Rightarrow> string \<Rightarrow> string" where
  "errorContent cl msg =
     ''I'm sorry, I encountered an error: '' @ msg @
     (if c_processing cl
      then [CHR 0x0A, CHR 0x0A] @
        ''This might be related to ongoing document processing. Please try again in a moment.''
      else [])"

definition errorResponse :: "send_closure \<Rightarrow> nat \<Rightarrow> string \<Rightarrow> jsval" where
  "errorResponse cl now msg =
     Obj [(''id'', Str (decimal (now + 1))),
          (''content'', Str (errorContent cl msg)),
          (''sender'', Str ''ai''),
          (''timestamp'', Date (Num (of_nat now))),
          (''intent'', Str ''error'')]"

text \<open>
  The \<open>aiResponse\<close> assembled from the parsed body \<open>data\<close>. \<open>data.final_answer\<close> throws when
  \<open>data\<close> is \<open>null\<close>; while embeddings are processing, \<open>data.final_answer.includes(...)\<close> is
  called, which throws unless \<open>final_answer\<close> is a string or an array. \<open>Inl\<close> is the message
  of the error thrown.
\<close>

definition aiResponse :: "nat \<Rightarrow> jsval \<Rightarrow> jsval" where
  "aiResponse now data =
     Obj [(''id'', Str (decimal (now + 1))),
          (''content'', opt_get data ''final_answer''),
          (''sender'', Str ''ai''),
          (''timestamp'', Date (Num (of_nat now))),
          (''relatedDocuments'', or_else (opt_get data ''tables_used'') (Arr [])),
          (''sql_query'', opt_get data ''sql_query''),
          (''query_result'', opt_get data ''query_result''),
          (''intent'', opt_get data ''intent''),
          (''confidence'', opt_get data ''confidence''),
          (''tables_used'', opt_get data ''tables_used''),
          (''suggestion'', opt_get data ''suggestion''),
          (''business_rules_applied'', opt_get data ''business_rules_applied''),
          (''reference_context'', opt_get data ''reference_context''),
          (''sample_data'', opt_get data ''sample_data''),
          (''total_rows'', opt_get data ''total_rows''),
          (''retrieval_stats'', opt_get data ''retrieval_stats''),
          (''context_sources'', opt_get data ''context_sources''),
          (''po_workflow'', opt_get data ''po_workflow''),
          (''po_workflow_started'', opt_get data ''po_workflow_started''),
          (''chart'', opt_get data ''chart''),
          (''chart_suggestions'', or_else (opt_get data ''chart_suggestions'') (Arr [])),
          (''data_insights'', or_else (opt_get data ''data_insights'') (Str [])),
          (''requires_chart_selection'',
             or_else (opt_get data ''requires_chart_selection'') (Bool False)),
          (''followup_suggestions'',
             or_else (opt_get (opt_get data ''chart'') ''followup_suggestions'') (Arr []))]"

definition assemble :: "js_runtime \<Rightarrow> send_closure \<Rightarrow> nat \<Rightarrow> jsval \<Rightarrow> string + jsval" where
  "assemble rt cl now data =
     (case get data ''final_answer'' of
        None \<Rightarrow> Inl (type_error rt ''final_answer'')
      | Some fa \<Rightarrow>
          if c_processing cl \<and> \<not> (case fa of Str s \<Rightarrow> True | Arr xs \<Rightarrow> True | _ \<Rightarrow> False)
          then Inl (type_error rt ''includes'')
          else Inr (aiResponse now data))"

text \<open>
  The \<open>try\<close> block after \<open>await fetch\<close>: what it throws (\<open>Inl\<close>, the message) or the
  \<open>aiResponse\<close> it builds. A response that is not \<open>ok\<close>: status 401 has its own message;
  otherwise the body is parsed, \<open>{}\<close> standing in when it is not JSON, and the error carries
  \<open>errorData.detail\<close> or the status.
\<close>

definition reply :: "js_runtime \<Rightarrow> send_closure \<Rightarrow> nat \<Rightarrow> fetch_result \<Rightarrow> string + jsval" where
  "reply rt cl now r =
     (case r of
        Rejected e \<Rightarrow> Inl e
      | Resolved resp \<Rightarrow>
          if \<not> ok resp then
            (if http_status resp = 401 then Inl ''Authentication expired. Please log in again.''
             else
               (case get (case body resp of NotJson e \<Rightarrow> Obj [] | Json v \<Rightarrow> v) ''detail'' of
                  None \<Rightarrow> Inl (type_error rt ''detail'')
                | Some d \<Rightarrow>
                    Inl (if truthy d then to_text rt d
                         else ''Server error: '' @ decimal (http_status resp))))
          else
            (case body resp of
               NotJson e \<Rightarrow> Inl e
             | Json data \<Rightarrow> assemble rt cl now data))"

text \<open>The \<open>catch\<close> branch followed by \<open>finally\<close>.\<close>

definition catch_finally :: "send_closure \<Rightarrow> nat \<Rightarrow> string \<Rightarrow> ChatInterface \<Rightarrow> ChatInterface" where
  "catch_finally cl now msg s =
     s\<lparr>error := Some msg, messages := messages s @ [errorResponse cl now msg], isTyping := False\<rparr>"

text \<open>
  \<open>handleSendMessage\<close> up to \<open>await fetch\<close>, called in closure \<open>cl\<close> at clock reading \<open>now\<close>.
  Without a token it throws before it fetches, and \<open>catch\<close> and \<open>finally\<close> run at once.
\<close>

definition handleSendMessage :: "send_closure \<Rightarrow> nat \<Rightarrow> ChatInterface \<Rightarrow> ChatInterface" where
  "handleSendMessage cl now s =
     (if trim (c_message cl) = [] \<or> c_project cl = None \<or> c_isTyping cl then s
      else
        (let s1 = s\<lparr>messages := messages s @ [userMessage cl now], message := [],
                     isTyping := True, error := None\<rparr>
         in if \<not> present (chat_token s)
            then catch_finally cl now ''No authentication token found. Please log in again.'' s1
            else s1\<lparr>requests := requests s1 @
                   [\<lparr>cq_closure = cl, cq_message = trim (c_message cl),
                     cq_project_id = proj_id (the (c_project cl)),
                     cq_conversation_id = c_conversation cl,
                     cq_token = the (chat_token s)\<rparr>]\<rparr>))"

text \<open>
  The rest of \<open>handleSendMessage\<close>, when the request of closure \<open>cl\<close> has settled with \<open>r\<close>
  at clock reading \<open>now\<close>.
\<close>

definition settle :: "js_runtime \<Rightarrow> send_closure \<Rightarrow> nat \<Rightarrow> fetch_result \<Rightarrow> ChatInterface \<Rightarrow> ChatInterface" where
  "settle rt cl now r s =
     (case reply rt cl now r of
        Inl msg \<Rightarrow> catch_finally cl now msg s
      | Inr ai \<Rightarrow> s\<lparr>messages := messages s @ [ai], isTyping := False\<rparr>)"

section \<open>The chat: the conversation effect and the component\<close>

text \<open>
  The two welcome texts. The first is the one of the effect: its line breaks are kept,
  while the indentation of its source lines and the three pictographs that open its list
  items, which are outside ASCII, are left out.
\<close>

definition welcome_text :: "string \<Rightarrow> string" where
  "welcome_text name =
     ''Hello! I'm your Supply Chain Assistant for '' @ [CHR 0x22] @ name @ [CHR 0x22] @ ''. '' @
     [CHR 0x0A] @ ''I can help you:'' @
     [CHR 0x0A] @ ''Query your database using natural language'' @
     [CHR 0x0A] @ ''Generate purchase orders by saying '' @ [CHR 0x22] @ ''generate PO for today'' @ [CHR 0x22] @
     [CHR 0x0A] @ ''Analyze data and suggest PO creation when shortfalls are found'' @
     [CHR 0x0A] @ ''What would you like to do?''"

definition empty_history_text :: "string \<Rightarrow> string" where
  "empty_history_text name =
     ''Hello! I'm your Supply Chain Assistant for '' @ [CHR 0x22] @ name @ [CHR 0x22] @
     ''. I can help you query your database using schema information, business rules, and documentation. What would you like to know?''"

definition welcome_message :: "string \<Rightarrow> bool \<Rightarrow> nat \<Rightarrow> jsval" where
  "welcome_message txt processing now =
     Obj [(''id'', Str ''welcome''),
          (''content'', Str txt),
          (''sender'', Str ''ai''),
          (''timestamp'', Date (Num (of_nat now))),
          (''intent'', Str (if processing then ''processing_status'' else ''welcome''))]"

text \<open>
  \<open>setMessages\<close> with the welcome message when \<open>selectedProject?.id\<close> is truthy, with the
  empty list otherwise.
\<close>

definition show_welcome ::
  "(string \<Rightarrow> string) \<Rightarrow> Project option \<Rightarrow> bool \<Rightarrow> nat \<Rightarrow> ChatInterface \<Rightarrow> ChatInterface" where
  "show_welcome txt p processing now s =
     (case p of
        None \<Rightarrow> s\<lparr>messages := []\<rparr>
      | Some pr \<Rightarrow>
          if proj_id pr \<noteq> [] then s\<lparr>messages := [welcome_message (txt (proj_name pr)) processing now]\<rparr>
          else s\<lparr>messages := []\<rparr>)"

text \<open>
  The effect \<open>useEffect(..., [currentConversationId, selectedProject?.id,
  isEmbeddingProcessing])\<close>, run for the render \<open>snap\<close>: with a conversation it starts
  \<open>loadConversationMessages\<close>; without one it shows the welcome message.
\<close>

definition conversation_effect :: "nat \<Rightarrow> ChatInterface \<Rightarrow> ChatInterface \<Rightarrow> ChatInterface" where
  "conversation_effect now snap s =
     (if present (currentConversationId snap)
      then s\<lparr>loads := loads s @
             [\<lparr>ld_conversation = the (currentConversationId snap),
               ld_project = selectedProject snap,
               ld_processing = isEmbeddingProcessing snap\<rparr>]\<rparr>
      else show_welcome welcome_text (selectedProject snap) (isEmbeddingProcessing snap) now s)"

text \<open>
  \<open>data.messages.map(...)\<close>: every record formatted, or \<open>None\<close> when the callback throws
  for one of them.
\<close>

fun format_all :: "js_runtime \<Rightarrow> jsval list \<Rightarrow> jsval list option" where
  "format_all rt [] = Some []"
| "format_all rt (m # ms) =
     (case format_message rt m of
        None \<Rightarrow> None
      | Some f \<Rightarrow> (case format_all rt ms of None \<Rightarrow> None | Some fs \<Rightarrow> Some (f # fs)))"

text \<open>
  The rest of \<open>loadConversationMessages\<close>, when its request has settled with \<open>r\<close>. A
  response that is not \<open>ok\<close> changes nothing, and neither does anything that throws (the
  \<open>catch\<close> only logs): a rejected request, a body that is not JSON, a \<open>null\<close> body, a
  \<open>messages\<close> that has no \<open>map\<close>, a record that is \<open>null\<close>.
\<close>

definition load_done ::
  "js_runtime \<Rightarrow> nat \<Rightarrow> load_request \<Rightarrow> fetch_result \<Rightarrow> ChatInterface \<Rightarrow> ChatInterface" where
  "load_done rt now ld r s =
     (case r of
        Rejected e \<Rightarrow> s
      | Resolved resp \<Rightarrow>
          if \<not> ok resp then s
          else
            (case body resp of
               NotJson e \<Rightarrow> s
             | Json data \<Rightarrow>
                 (case get data ''messages'' of
                    None \<Rightarrow> s
                  | Some ms \<Rightarrow>
                      if \<not> truthy ms \<or> opt_get ms ''length'' = Num 0
                      then show_welcome empty_history_text (ld_project ld) (ld_processing ld) now s
                      else
                        (case ms of
                           Arr xs \<Rightarrow>
                             (case format_all rt xs of
                                None \<Rightarrow> s
                              | Some fs \<Rightarrow> s\<lparr>messages := fs\<rparr>)
                         | _ \<Rightarrow> s))))"

text \<open>
  What can happen to a mounted chat. \<open>Submit\<close> is the form's submit or the Enter key: it
  calls the \<open>handleSendMessage\<close> of the present render. \<open>SuggestionClick\<close> is
  \<open>handleSuggestionClick\<close>, \<open>handleChartSelect\<close> or \<open>handleFollowupClick\<close>: it sets the
  input and puts the \<open>handleSendMessage\<close> of the present render behind a timer of 100 ms;
  \<open>DeferredFires\<close> is that timer firing. The numbers are clock readings, in milliseconds.
\<close>

datatype chat_event =
    Type string
  | Submit nat
  | SuggestionClick string
  | DeferredFires nat nat
  | Settles nat nat fetch_result
  | SelectConversation "string option" nat
  | ChatProject "Project option" nat
  | SetProcessing bool nat
  | Loaded nat nat fetch_result
  | SetToken "string option"

definition remove_nth :: "nat \<Rightarrow> 'a list \<Rightarrow> 'a list" where
  "remove_nth k xs = take k xs @ drop (Suc k) xs"

text \<open>The dependencies of the conversation effect.\<close>

definition conversation_deps :: "ChatInterface \<Rightarrow> string option \<times> string option \<times> bool" where
  "conversation_deps s = (currentConversationId s, project_key s, isEmbeddingProcessing s)"

definition rerender :: "nat \<Rightarrow> ChatInterface \<Rightarrow> ChatInterface \<Rightarrow> ChatInterface" where
  "rerender now old s =
     (if conversation_deps s \<noteq> conversation_deps old then conversation_effect now s s else s)"

fun chat_step :: "js_runtime \<Rightarrow> chat_event \<Rightarrow> ChatInterface \<Rightarrow> ChatInterface" where
  "chat_step rt (Type txt) s = s\<lparr>message := txt\<rparr>"
| "chat_step rt (Submit now) s = handleSendMessage (closure_of s) now s"
| "chat_step rt (SuggestionClick txt) s =
     s\<lparr>message := txt, deferred := deferred s @ [closure_of s]\<rparr>"
| "chat_step rt (DeferredFires k now) s =
     (if k < length (deferred s)
      then handleSendMessage (deferred s ! k) now (s\<lparr>deferred := remove_nth k (deferred s)\<rparr>)
      else s)"
| "chat_step rt (Settles k now r) s =
     (if k < length (requests s)
      then settle rt (cq_closure (requests s ! k)) now r (s\<lparr>requests := remove_nth k (requests s)\<rparr>)
      else s)"
| "chat_step rt (SelectConversation c now) s = rerender now s (s\<lparr>currentConversationId := c\<rparr>)"
| "chat_step rt (ChatProject p now) s = rerender now s (s\<lparr>selectedProject := p\<rparr>)"
| "chat_step rt (SetProcessing b now) s = rerender now s (s\<lparr>isEmbeddingProcessing := b\<rparr>)"
| "chat_step rt (Loaded k now r) s =
     (if k < length (loads s)
      then load_done rt now (loads s ! k) r (s\<lparr>loads := remove_nth k (loads s)\<rparr>)
      else s)"
| "chat_step rt (SetToken tok) s = s\<lparr>chat_token := tok\<rparr>"

fun chat_run :: "js_runtime \<Rightarrow> chat_event list \<Rightarrow> ChatInterface \<Rightarrow> ChatInterface" where
  "chat_run rt [] s = s"
| "chat_run rt (e # es) s = chat_run rt es (chat_step rt e s)"

text \<open>Mounting: the initial values of the cells, then the first run of the effect.\<close>

definition chat_mount ::
  "Project option \<Rightarrow> bool \<Rightarrow> string option \<Rightarrow> string option \<Rightarrow> nat \<Rightarrow> ChatInterface" where
  "chat_mount p processing conv tok now =
     conversation_effect now
       \<lparr>selectedProject = p, isEmbeddingProcessing = processing, currentConversationId = conv,
        messages = [], message = [], isTyping = False, error = None, chat_token = tok,
        requests = [], loads = [], deferred = []\<rparr>
       \<lparr>selectedProject = p, isEmbeddingProcessing = processing, currentConversationId = conv,
        messages = [], message = [], isTyping = False, error = None, chat_token = tok,
        requests = [], loads = [], deferred = []\<rparr>"

text \<open>A response that is \<open>ok\<close> and carries JSON, for the concrete checks.\<close>

definition json_ok :: "jsval \<Rightarrow> fetch_result" where
  "json_ok v = Resolved \<lparr>ok = True, http_status = 200,
     content_type = Some ''application/json'', body = Json v\<rparr>"

section \<open>The chat: auxiliary notions of the verification\<close>

text \<open>
  For the concrete checks: the response that carries a history of one message.
\<close>

definition history :: "string \<Rightarrow> string \<Rightarrow> string \<Rightarrow> fetch_result" where
  "history i role txt =
     json_ok (Obj [(''messages'', Arr [Obj [(''id'', Str i), (''role'', Str role), (''content'', Str txt)]])])"

text \<open>
  The message that \<open>settle\<close> appends: the answer, or the error response.
\<close>

definition ai_message :: "js_runtime \<Rightarrow> send_closure \<Rightarrow> nat \<Rightarrow> fetch_result \<Rightarrow> jsval" where
  "ai_message rt cl now r =
     (case reply rt cl now r of Inl msg \<Rightarrow> errorResponse cl now msg | Inr ai \<Rightarrow> ai)"

text \<open>A call that failed: the request was rejected, or the response is not \<open>ok\<close>.\<close>

definition failed :: "fetch_result \<Rightarrow> bool" where
  "failed r = (case r of Rejected e \<Rightarrow> True | Resolved resp \<Rightarrow> \<not> ok resp)"

text \<open>For the concrete checks: a closure with a question typed, and a server error.\<close>

definition plain_closure :: send_closure where
  "plain_closure =
     \<lparr>c_message = ''how many orders?'', c_project = Some retail, c_isTyping = False,
      c_processing = False, c_conversation = None\<rparr>"

definition server_error :: response where
  "server_error = \<lparr>ok = False, http_status = 500, content_type = Some ''text/html'',
     body = NotJson ''Unexpected token''\<rparr>"

text \<open>
  The events that call the \<open>handleSendMessage\<close> of the present render, or none; and what
  holds of the chat as long as only they occur.
\<close>

fun form_event :: "chat_event \<Rightarrow> bool" where
  "form_event (SuggestionClick txt) = False"
| "form_event (DeferredFires k now) = False"
| "form_event e = True"

definition serial :: "ChatInterface \<Rightarrow> bool" where
  "serial s \<longleftrightarrow> deferred s = [] \<and> length (requests s) \<le> 1 \<and> isTyping s = (requests s \<noteq> [])"

section \<open>The upload dialog\<close>

text \<open>
  \<open>interface UploadFile\<close> (the file itself stands by its name) and the state of
  \<open>DocumentUploadDialog\<close>, with what it shows the user through \<open>alert\<close> and what it hands to
  \<open>onUploadComplete\<close>.
\<close>

record UploadFile =
  uf_id :: string
  uf_file :: string
  uf_progress :: nat
  uf_status :: string
  uf_error :: "string option"

record DocumentUploadDialog =
  uploadFiles :: "UploadFile list"
  isUploading :: bool
  alerts :: "string list"
  completions :: "UploadFile list list"

definition mark_completed :: "UploadFile \<Rightarrow> UploadFile" where
  "mark_completed f = f\<lparr>uf_status := ''completed'', uf_progress := 100\<rparr>"

definition mark_error :: "string \<Rightarrow> UploadFile \<Rightarrow> UploadFile" where
  "mark_error msg f = f\<lparr>uf_status := ''error'', uf_error := Some msg\<rparr>"

text \<open>The \<open>catch\<close> branch of \<open>handleUpload\<close> for an error with message \<open>msg\<close>, and \<open>finally\<close>.\<close>

definition upload_failed :: "string \<Rightarrow> DocumentUploadDialog \<Rightarrow> DocumentUploadDialog" where
  "upload_failed msg s =
     s\<lparr>uploadFiles := map (mark_error msg) (uploadFiles s), alerts := alerts s @ [msg],
       isUploading := False\<rparr>"

text \<open>\<open>v > 0\<close>.\<close>

definition js_positive :: "js_runtime \<Rightarrow> jsval \<Rightarrow> bool" where
  "js_positive rt v = (case v of Num x \<Rightarrow> 0 < x | _ \<Rightarrow> coerced_positive rt v)"

text \<open>
  \<open>handleUpload\<close> up to \<open>await fetch\<close>: nothing to upload, nothing done; otherwise
  \<open>isUploading\<close> is set and the request leaves.
\<close>

definition handleUpload :: "DocumentUploadDialog \<Rightarrow> DocumentUploadDialog" where
  "handleUpload s = (if uploadFiles s = [] then s else s\<lparr>isUploading := True\<rparr>)"

text \<open>
  The rest of \<open>handleUpload\<close>, when its request has settled with \<open>r\<close>; \<open>files\<close> is
  \<open>uploadFiles\<close> of the render that called it. The content type is looked at first, and
  only a response whose content type contains \<open>application/json\<close> is parsed. Reading the
  text of any other body is taken to succeed.
\<close>

definition upload_done ::
  "js_runtime \<Rightarrow> UploadFile list \<Rightarrow> fetch_result \<Rightarrow> DocumentUploadDialog \<Rightarrow> DocumentUploadDialog" where
  "upload_done rt files r s =
     (case r of
        Rejected e \<Rightarrow> upload_failed e s
      | Resolved resp \<Rightarrow>
          if str_includes (case content_type resp of None \<Rightarrow> [] | Some c \<Rightarrow> c) ''application/json''
          then
            (case body resp of
               NotJson e \<Rightarrow> upload_failed e s
             | Json data \<Rightarrow>
                 if \<not> ok resp then
                   (case get data ''detail'' of
                      None \<Rightarrow> upload_failed (type_error rt ''detail'') s
                    | Some d \<Rightarrow>
                        upload_failed
                          (if truthy d then to_text rt d
                           else ''Upload failed: '' @ decimal (http_status resp)) s)
                 else
                   (let s1 = s\<lparr>uploadFiles := map mark_completed (uploadFiles s),
                                completions := completions s @ [map mark_completed files]\<rparr>
                    in case get data ''failed_count'' of
                         None \<Rightarrow> upload_failed (type_error rt ''failed_count'') s1
                       | Some fc \<Rightarrow>
                           (if truthy fc \<and> js_positive rt fc
                            then s1\<lparr>alerts := alerts s1 @
                                   [''Upload completed: '' @ to_text rt (opt_get data ''success_count'') @
                                    '' successful, '' @ to_text rt fc @ '' failed'']\<rparr>
                            else s1)\<lparr>isUploading := False\<rparr>))
          else
            upload_failed
              (''Server error: Expected JSON but received HTML (Status: '' @
                 decimal (http_status resp) @ '')'') s)"

text \<open>Whether the content type of a response names JSON, as \<open>handleUpload\<close> tests it.\<close>

definition json_content_type :: "response \<Rightarrow> bool" where
  "json_content_type resp =
     str_includes (case content_type resp of None \<Rightarrow> [] | Some c \<Rightarrow> c) ''application/json''"

text \<open>For the concrete checks: a dialog with one file, and an HTML error page.\<close>

definition one_file :: DocumentUploadDialog where
  "one_file =
     \<lparr>uploadFiles = [\<lparr>uf_id = ''f1'', uf_file = ''schema.sql'', uf_progress = 0,
                       uf_status = ''uploading'', uf_error = None\<rparr>],
      isUploading = True, alerts = [], completions = []\<rparr>"

definition html_page :: response where
  "html_page = \<lparr>ok = False, http_status = 502, content_type = Some ''text/html'',
     body = NotJson ''Unexpected token''\<rparr>"

text \<open>
  The events of a server that refuses \<open>n\<close> connections in a row, each socket closing
  and its reconnect timer firing; and what holds of the sidebar after them.
\<close>

fun refused :: "nat \<Rightarrow> sidebar_event list" where
  "refused 0 = []"
| "refused (Suc n) = refused n @ [SocketCloses n, ReconnectFires 0]"

definition chain :: "Project \<Rightarrow> nat \<Rightarrow> POSidebar \<Rightarrow> bool" where
  "chain p n s \<longleftrightarrow>
     mounted s \<and> selectedProject s = Some p \<and> ws_dep s = Some (proj_id p) \<and>
     \<not> poll_dep s \<and> \<not> isConnected s \<and> present (access_token s) \<and>
     reconnects s = [] \<and> connectionRetries s = n \<and> length (sockets s) = Suc n \<and>
     ws_closure (sockets s ! n) = \<lparr>cl_project = Some p, cl_retries = 0\<rparr> \<and>
     ws_readyState (sockets s ! n) = CONNECTING"

section \<open>Verification: keyed status update of the purchase-order lists\<close>

lemma update_status_hit:
  "po_number po = num \<Longrightarrow> update_status num st po = po\<lparr>status := st\<rparr>"
  by (simp add: update_status_def)

lemma update_status_miss:
  "po_number po \<noteq> num \<Longrightarrow> update_status num st po = po"
  by (simp add: update_status_def)

lemma update_status_frame: "same_but_status po (update_status num st po)"
  by (simp add: update_status_def same_but_status_def)

lemma update_status_status:
  "status (update_status num st po) = (if po_number po = num then st else status po)"
  by (simp add: update_status_def)

lemma map_update_status_absent:
  "\<forall>po \<in> set pos. po_number po \<noteq> num \<Longrightarrow> map (update_status num st) pos = pos"
  by (induction pos) (simp_all add: update_status_def)

lemma handle_po_status_update:
  assumes "msg_type data = ''po_status_update''"
    and "present (ws_po_number data)" and "present (ws_status data)"
  shows "handleWebSocketMessage d data s =
         s\<lparr>todayPOs := map (update_status (the (ws_po_number data)) (the (ws_status data)))
                          (todayPOs s),
           selectedDatePOs := map (update_status (the (ws_po_number data)) (the (ws_status data)))
                          (selectedDatePOs s)\<rparr>"
  using assms by (simp add: handleWebSocketMessage_def)

lemma handle_po_status_update_missing:
  assumes "msg_type data = ''po_status_update''"
    and "\<not> (present (ws_po_number data) \<and> present (ws_status data))"
  shows "handleWebSocketMessage d data s = s"
  using assms by (auto simp add: handleWebSocketMessage_def)

lemma handle_po_status_update_unmatched:
  assumes "msg_type data = ''po_status_update''"
    and "\<forall>po \<in> set (todayPOs s) \<union> set (selectedDatePOs s).
           ws_po_number data \<noteq> Some (po_number po)"
  shows "handleWebSocketMessage d data s = s"
proof (cases "present (ws_po_number data) \<and> present (ws_status data)")
  case False
  with assms(1) show ?thesis by (rule handle_po_status_update_missing)
next
  case True
  then obtain num where num: "ws_po_number data = Some num"
    by (auto simp: present_def split: option.splits)
  from assms(2) num have "\<forall>po \<in> set (todayPOs s). po_number po \<noteq> num"
    and "\<forall>po \<in> set (selectedDatePOs s). po_number po \<noteq> num"
    by auto
  then have "map (update_status num st) (todayPOs s) = todayPOs s"
    and "map (update_status num st) (selectedDatePOs s) = selectedDatePOs s" for st
    by (simp_all add: map_update_status_absent)
  with True assms(1) num show ?thesis
    by (simp add: handle_po_status_update)
qed

text \<open>
  C3. A \<open>po_status_update\<close> event that carries a \<open>po_number\<close> and a \<open>status\<close> (both present
  and not empty, which is what the handler's guard \<open>po_number && status\<close> asks; its other
  branch reports them missing) leaves both lists at their lengths and, position by
  position, replaces the status of every record whose \<open>po_number\<close> matches and keeps every
  other field and every other record. An event whose \<open>po_number\<close> matches no record of
  either list leaves the whole sidebar state as it was. No event changes the chat messages.
\<close>

theorem po_status_update_keyed_in_place:
  assumes "msg_type data = ''po_status_update''"
  shows "(present (ws_po_number data) \<and> present (ws_status data) \<longrightarrow>
           length (todayPOs (handleWebSocketMessage d data s)) = length (todayPOs s) \<and>
           length (selectedDatePOs (handleWebSocketMessage d data s)) = length (selectedDatePOs s) \<and>
           (\<forall>i < length (todayPOs s).
              same_but_status (todayPOs s ! i) (todayPOs (handleWebSocketMessage d data s) ! i) \<and>
              status (todayPOs (handleWebSocketMessage d data s) ! i) =
                (if po_number (todayPOs s ! i) = the (ws_po_number data)
                 then the (ws_status data) else status (todayPOs s ! i))) \<and>
           (\<forall>i < length (selectedDatePOs s).
              same_but_status (selectedDatePOs s ! i)
                (selectedDatePOs (handleWebSocketMessage d data s) ! i) \<and>
              status (selectedDatePOs (handleWebSocketMessage d data s) ! i) =
                (if po_number (selectedDatePOs s ! i) = the (ws_po_number data)
                 then the (ws_status data) else status (selectedDatePOs s ! i))))
       \<and> ((\<forall>po \<in> set (todayPOs s) \<union> set (selectedDatePOs s).
              ws_po_number data \<noteq> Some (po_number po)) \<longrightarrow>
            handleWebSocketMessage d data s = s)
       \<and> chat_messages (deliver d data sc) = chat_messages sc"
proof (intro conjI impI)
  assume p: "present (ws_po_number data) \<and> present (ws_status data)"
  then have h: "handleWebSocketMessage d data s =
         s\<lparr>todayPOs := map (update_status (the (ws_po_number data)) (the (ws_status data)))
                          (todayPOs s),
           selectedDatePOs := map (update_status (the (ws_po_number data)) (the (ws_status data)))
                          (selectedDatePOs s)\<rparr>"
    using assms by (simp add: handle_po_status_update)
  show "length (todayPOs (handleWebSocketMessage d data s)) = length (todayPOs s)"
    by (simp add: h)
  show "length (selectedDatePOs (handleWebSocketMessage d data s)) = length (selectedDatePOs s)"
    by (simp add: h)
  show "\<forall>i < length (todayPOs s).
              same_but_status (todayPOs s ! i) (todayPOs (handleWebSocketMessage d data s) ! i) \<and>
              status (todayPOs (handleWebSocketMessage d data s) ! i) =
                (if po_number (todayPOs s ! i) = the (ws_po_number data)
                 then the (ws_status data) else status (todayPOs s ! i))"
    by (simp add: h update_status_frame update_status_status)
  show "\<forall>i < length (selectedDatePOs s).
              same_but_status (selectedDatePOs s ! i)
                (selectedDatePOs (handleWebSocketMessage d data s) ! i) \<and>
              status (selectedDatePOs (handleWebSocketMessage d data s) ! i) =
                (if po_number (selectedDatePOs s ! i) = the (ws_po_number data)
                 then the (ws_status data) else status (selectedDatePOs s ! i))"
    by (simp add: h update_status_frame update_status_status)
next
  assume "\<forall>po \<in> set (todayPOs s) \<union> set (selectedDatePOs s).
              ws_po_number data \<noteq> Some (po_number po)"
  with assms show "handleWebSocketMessage d data s = s"
    by (rule handle_po_status_update_unmatched)
next
  show "chat_messages (deliver d data sc) = chat_messages sc"
    by (simp add: deliver_def)
qed

text \<open>
  The theorem at a concrete event: \<open>PO-2\<close> is approved while it stands in both lists, and
  an event for \<open>PO-9\<close>, which is in neither, changes nothing.
\<close>

theorem po_status_update_keyed_in_place_witness:
  "msg_type (po_event ''PO-2'' ''approved'') = ''po_status_update''
   \<and> present (ws_po_number (po_event ''PO-2'' ''approved''))
   \<and> present (ws_status (po_event ''PO-2'' ''approved''))
   \<and> map status (todayPOs (handleWebSocketMessage ''1/1/2025'' (po_event ''PO-2'' ''approved'') sample_lists))
       = [''generated'', ''approved'']
   \<and> map status (selectedDatePOs (handleWebSocketMessage ''1/1/2025'' (po_event ''PO-2'' ''approved'') sample_lists))
       = [''approved'']
   \<and> map vendor_name (todayPOs (handleWebSocketMessage ''1/1/2025'' (po_event ''PO-2'' ''approved'') sample_lists))
       = [''Acme'', ''Bolt'']
   \<and> handleWebSocketMessage ''1/1/2025'' (po_event ''PO-9'' ''approved'') sample_lists = sample_lists
   \<and> chat_messages (deliver ''1/1/2025'' (po_event ''PO-2'' ''approved'')
         \<lparr>chat_messages = [Str ''hello''], sidebar = sample_lists\<rparr>) = [Str ''hello'']"
  using po_status_update_keyed_in_place
    [of "po_event ''PO-9'' ''approved''" "''1/1/2025''" sample_lists
        "\<lparr>chat_messages = [Str ''hello''], sidebar = sample_lists\<rparr>"]
  by (simp add: po_event_def sample_lists_def sample_po_def handleWebSocketMessage_def
      present_def update_status_def deliver_def)

section \<open>Verification: lifecycle of the polling intervals\<close>

lemma shape_loose: "poll_shape c s \<Longrightarrow> poll_loose s"
  by (auto simp: poll_shape_def poll_loose_def split: option.splits if_splits)

lemma ws_close_frame:
  "intervals (ws_close w s) = intervals s" "next_interval (ws_close w s) = next_interval s"
  "poll_cleanup (ws_close w s) = poll_cleanup s" "poll_dep (ws_close w s) = poll_dep s"
  "selectedProject (ws_close w s) = selectedProject s" "selectedDate (ws_close w s) = selectedDate s"
  "mounted (ws_close w s) = mounted s" "isConnected (ws_close w s) = isConnected s"
  "ws_dep (ws_close w s) = ws_dep s"
  by (simp_all add: ws_close_def)

lemma connect_frame:
  "intervals (connectWebSocket cl s) = intervals s" "next_interval (connectWebSocket cl s) = next_interval s"
  "poll_cleanup (connectWebSocket cl s) = poll_cleanup s" "poll_dep (connectWebSocket cl s) = poll_dep s"
  "selectedProject (connectWebSocket cl s) = selectedProject s" "selectedDate (connectWebSocket cl s) = selectedDate s"
  "mounted (connectWebSocket cl s) = mounted s" "isConnected (connectWebSocket cl s) = isConnected s"
  "ws_dep (connectWebSocket cl s) = ws_dep s"
  by (simp_all add: connectWebSocket_def split: option.splits)

lemma ws_effect_frame:
  "intervals (ws_effect snap s) = intervals s" "next_interval (ws_effect snap s) = next_interval s"
  "poll_cleanup (ws_effect snap s) = poll_cleanup s" "poll_dep (ws_effect snap s) = poll_dep s"
  "selectedProject (ws_effect snap s) = selectedProject s" "selectedDate (ws_effect snap s) = selectedDate s"
  "mounted (ws_effect snap s) = mounted s" 
  "ws_dep (ws_effect snap s) = ws_dep s"
  by (simp_all add: ws_effect_def Let_def ws_close_frame connect_frame split: option.splits)

lemma poll_effect_shape:
  assumes "poll_loose s" "mounted s" "selectedProject s = selectedProject snap" "selectedDate s = selectedDate snap"
  shows "poll_shape (isConnected snap) ((poll_effect snap s)\<lparr>poll_dep := isConnected snap\<rparr>)"
  using assms
  by (auto simp: poll_loose_def poll_shape_def poll_effect_def clearInterval_def fetch_pos_def Let_def split: option.splits)

lemma poll_effect_frame:
  "selectedProject (poll_effect snap s) = selectedProject s" "selectedDate (poll_effect snap s) = selectedDate s"
  "mounted (poll_effect snap s) = mounted s" "isConnected (poll_effect snap s) = isConnected s"
  "ws_dep (poll_effect snap s) = ws_dep s" "poll_dep (poll_effect snap s) = poll_dep s"
  by (simp_all add: poll_effect_def Let_def clearInterval_def fetch_pos_def split: option.splits)

lemma ws_effect_loose: "poll_loose s \<Longrightarrow> poll_loose (ws_effect snap s)"
  by (simp add: poll_loose_def ws_effect_frame)

lemma render_pass_forced:
  assumes "poll_loose s" "mounted s"
  shows "poll_shape (isConnected s) (render_pass True s)"
    and "ws_dep (render_pass True s) = project_key (render_pass True s)"
    and "mounted (render_pass True s)"
proof -
  let ?s1 = "if project_key s \<noteq> ws_dep s then (ws_effect s s)\<lparr>ws_dep := project_key s\<rparr> else s"
  have r: "render_pass True s = (poll_effect s ?s1)\<lparr>poll_dep := isConnected s\<rparr>"
    by (simp add: render_pass_def Let_def)
  have l: "poll_loose ?s1" using assms(1) ws_effect_loose[of s s]
    by (simp add: poll_loose_def)
  have m: "mounted ?s1" "selectedProject ?s1 = selectedProject s" "selectedDate ?s1 = selectedDate s"
    using assms(2) by (simp_all add: ws_effect_frame)
  show "poll_shape (isConnected s) (render_pass True s)"
    unfolding r using l m by (rule poll_effect_shape)
  show "ws_dep (render_pass True s) = project_key (render_pass True s)"
    by (simp add: r poll_effect_frame project_key_def ws_effect_frame)
  show "mounted (render_pass True s)"
    using m(1) by (simp add: r poll_effect_frame)
qed

lemma render_pass_settle:
  assumes "poll_shape c s" "mounted s" "ws_dep s = project_key s"
  shows "poll_shape (isConnected s) (render_pass False s)"
    and "ws_dep (render_pass False s) = project_key (render_pass False s)"
    and "mounted (render_pass False s)"
    and "isConnected (render_pass False s) = isConnected s"
proof -
  have c: "poll_dep s = c" using assms(1,2) by (simp add: poll_shape_def)
  have r: "render_pass False s =
      (if isConnected s \<noteq> c then (poll_effect s s)\<lparr>poll_dep := isConnected s\<rparr> else s)"
    using assms(3) c by (simp add: render_pass_def Let_def)
  show "poll_shape (isConnected s) (render_pass False s)"
  proof (cases "isConnected s = c")
    case True with assms(1) r show ?thesis by simp
  next
    case False
    have "poll_shape (isConnected s) ((poll_effect s s)\<lparr>poll_dep := isConnected s\<rparr>)"
      using shape_loose[OF assms(1)] assms(2) by (rule poll_effect_shape) simp_all
    with False r show ?thesis by simp
  qed
  show "ws_dep (render_pass False s) = project_key (render_pass False s)"
    using assms(3) by (simp add: r poll_effect_frame project_key_def)
  show "mounted (render_pass False s)" using assms(2) by (simp add: r poll_effect_frame)
  show "isConnected (render_pass False s) = isConnected s" by (simp add: r poll_effect_frame)
qed

lemma commit_forced:
  assumes "poll_loose s" "mounted s"
  shows "poll_ok (commit True s)"
proof -
  let ?r = "render_pass True s"
  note a = render_pass_forced[OF assms]
  note b = render_pass_settle[OF a(1) a(3) a(2)]
  have "commit True s = render_pass False ?r" using assms(2) by (simp add: commit_def)
  with b show ?thesis by (simp add: poll_ok_def)
qed

lemma commit_settle:
  assumes "poll_shape c s" "ws_dep s = project_key s" "mounted s"
  shows "poll_ok (commit False s)"
proof -
  let ?r = "render_pass False s"
  note a = render_pass_settle[OF assms(1) assms(3) assms(2)]
  note b = render_pass_settle[OF a(1) a(3) a(2)]
  have "commit False s = render_pass False ?r" using assms(3) by (simp add: commit_def)
  with a b show ?thesis by (simp add: poll_ok_def)
qed

lemma commit_unmounted: "\<not> mounted s \<Longrightarrow> commit f s = s"
  by (simp add: commit_def)

lemma handler_frames:
  "intervals (onopen i s) = intervals s" "next_interval (onopen i s) = next_interval s"
  "poll_cleanup (onopen i s) = poll_cleanup s" "poll_dep (onopen i s) = poll_dep s"
  "selectedProject (onopen i s) = selectedProject s" "selectedDate (onopen i s) = selectedDate s"
  "mounted (onopen i s) = mounted s" "ws_dep (onopen i s) = ws_dep s"
  "intervals (onclose i s) = intervals s" "next_interval (onclose i s) = next_interval s"
  "poll_cleanup (onclose i s) = poll_cleanup s" "poll_dep (onclose i s) = poll_dep s"
  "selectedProject (onclose i s) = selectedProject s" "selectedDate (onclose i s) = selectedDate s"
  "mounted (onclose i s) = mounted s" "ws_dep (onclose i s) = ws_dep s"
  "intervals (reconnect_fires i s) = intervals s" "next_interval (reconnect_fires i s) = next_interval s"
  "poll_cleanup (reconnect_fires i s) = poll_cleanup s" "poll_dep (reconnect_fires i s) = poll_dep s"
  "selectedProject (reconnect_fires i s) = selectedProject s" "selectedDate (reconnect_fires i s) = selectedDate s"
  "mounted (reconnect_fires i s) = mounted s" "ws_dep (reconnect_fires i s) = ws_dep s"
  "isConnected (reconnect_fires i s) = isConnected s"
  by (simp_all add: onopen_def onclose_def reconnect_fires_def Let_def connect_frame)

lemma shape_transfer:
  assumes "poll_shape c s"
    and "intervals s' = intervals s" "next_interval s' = next_interval s"
    and "poll_cleanup s' = poll_cleanup s" "poll_dep s' = poll_dep s"
    and "selectedProject s' = selectedProject s" "selectedDate s' = selectedDate s"
    and "mounted s' = mounted s"
  shows "poll_shape c s'"
  using assms by (simp add: poll_shape_def split: option.splits)

lemma handler_ok:
  assumes "poll_ok s"
    and "intervals s' = intervals s" "next_interval s' = next_interval s"
    and "poll_cleanup s' = poll_cleanup s" "poll_dep s' = poll_dep s"
    and "selectedProject s' = selectedProject s" "selectedDate s' = selectedDate s"
    and "mounted s' = mounted s" "ws_dep s' = ws_dep s"
  shows "poll_ok (commit False s')"
proof (cases "mounted s")
  case True
  have sh: "poll_shape (isConnected s) s'"
    using assms(1) unfolding poll_ok_def
    by (intro shape_transfer[of "isConnected s" s s']) (simp_all add: assms)
  have "ws_dep s' = project_key s'"
    using assms(1) True by (simp add: poll_ok_def project_key_def assms)
  with sh show ?thesis using True assms(8) by (intro commit_settle[of "isConnected s"]) simp_all
next
  case False
  then have "commit False s' = s'" by (simp add: commit_unmounted assms)
  moreover have "poll_shape (isConnected s') s'"
    using assms(1) False by (simp add: poll_ok_def poll_shape_def assms)
  ultimately show ?thesis using False by (simp add: poll_ok_def assms)
qed

lemma handle_msg_frames:
  "intervals (handleWebSocketMessage d m s) = intervals s" "next_interval (handleWebSocketMessage d m s) = next_interval s"
  "poll_cleanup (handleWebSocketMessage d m s) = poll_cleanup s" "poll_dep (handleWebSocketMessage d m s) = poll_dep s"
  "selectedProject (handleWebSocketMessage d m s) = selectedProject s" "selectedDate (handleWebSocketMessage d m s) = selectedDate s"
  "mounted (handleWebSocketMessage d m s) = mounted s" "ws_dep (handleWebSocketMessage d m s) = ws_dep s"
  "isConnected (handleWebSocketMessage d m s) = isConnected s"
  by (simp_all add: handleWebSocketMessage_def)

lemma poll_tick_frames:
  "intervals (poll_tick v s) = intervals s" "next_interval (poll_tick v s) = next_interval s"
  "poll_cleanup (poll_tick v s) = poll_cleanup s" "poll_dep (poll_tick v s) = poll_dep s"
  "selectedProject (poll_tick v s) = selectedProject s" "selectedDate (poll_tick v s) = selectedDate s"
  "mounted (poll_tick v s) = mounted s" "ws_dep (poll_tick v s) = ws_dep s"
  "isConnected (poll_tick v s) = isConnected s"
  by (simp_all add: poll_tick_def fetch_pos_def split: option.splits)

lemma ok_transfer:
  assumes "poll_ok s"
    and "intervals s' = intervals s" "next_interval s' = next_interval s"
    and "poll_cleanup s' = poll_cleanup s" "poll_dep s' = poll_dep s"
    and "selectedProject s' = selectedProject s" "selectedDate s' = selectedDate s"
    and "mounted s' = mounted s" "ws_dep s' = ws_dep s" "isConnected s' = isConnected s"
  shows "poll_ok s'"
  using assms by (simp add: poll_ok_def poll_shape_def project_key_def split: option.splits)

lemma step_ok: "poll_ok s \<Longrightarrow> poll_ok (sidebar_step e s)"
proof (cases e)
  case (SetProject p)
  assume ok: "poll_ok s"
  show ?thesis
  proof (cases "mounted s")
    case True
    have "poll_loose (s\<lparr>selectedProject := p\<rparr>)"
      using shape_loose[of "isConnected s" s] ok by (simp add: poll_ok_def poll_loose_def)
    then show ?thesis using True SetProject by (simp add: commit_forced)
  next
    case False
    then show ?thesis using ok SetProject
      by (simp add: commit_unmounted poll_ok_def poll_shape_def)
  qed
next
  case (SetDate d)
  assume ok: "poll_ok s"
  show ?thesis
  proof (cases "mounted s")
    case True
    have "poll_loose (s\<lparr>selectedDate := d\<rparr>)"
      using shape_loose[of "isConnected s" s] ok by (simp add: poll_ok_def poll_loose_def)
    then show ?thesis using True SetDate by (simp add: commit_forced)
  next
    case False
    then show ?thesis using ok SetDate
      by (simp add: commit_unmounted poll_ok_def poll_shape_def)
  qed
next
  case (DayChanges d)
  assume "poll_ok s"
  then show ?thesis using DayChanges by (auto intro!: ok_transfer[of s])
next
  case (SocketOpens i)
  assume "poll_ok s"
  then show ?thesis using SocketOpens by (simp add: handler_ok handler_frames)
next
  case (SocketCloses i)
  assume "poll_ok s"
  then show ?thesis using SocketCloses by (simp add: handler_ok handler_frames)
next
  case (SocketMessage i m)
  assume "poll_ok s"
  then show ?thesis using SocketMessage
    by (auto split: option.splits intro!: ok_transfer[of s] simp: handle_msg_frames)
next
  case (ReconnectFires k)
  assume "poll_ok s"
  then show ?thesis using ReconnectFires by (simp add: handler_ok handler_frames)
next
  case (PollTick i)
  assume "poll_ok s"
  then show ?thesis using PollTick
    by (auto split: list.splits intro!: ok_transfer[of s] simp: poll_tick_frames)
next
  case Unmount
  assume "poll_ok s"
  then show ?thesis using Unmount
    by (auto simp: poll_ok_def poll_shape_def Let_def clearInterval_def ws_close_frame
        split: option.splits if_splits)
qed

lemma run_ok: "poll_ok s \<Longrightarrow> poll_ok (sidebar_run es s)"
  by (induction es arbitrary: s) (simp_all add: step_ok)

lemma mount_ok: "poll_ok (sidebar_mount p tok day)"
  unfolding sidebar_mount_def by (rule commit_forced) (simp_all add: poll_loose_def)

































lemmas sidebar_eval = sidebar_mount_def commit_def render_pass_def Let_def ws_effect_def poll_effect_def
  connectWebSocket_def present_def fetch_pos_def clearInterval_def project_key_def onopen_def onclose_def
  reconnect_fires_def backoff_def ws_close_def poll_tick_def retail_def






section \<open>Verification: the WebSocket channel\<close>

text \<open>
  C2, at a failing input. A project is selected when the sidebar mounts and the server
  refuses every connection: each socket closes, and each reconnect timer fires. The
  handlers of every socket belong to the closure of the first render, where
  \<open>connectionRetries\<close> is 0: the seventh close in a row still arms a timer, its delay is
  1000 ms as the first one's was, and the counter stands at 6.
\<close>

theorem reconnect_cap_bypassed:
  "connectionRetries (sidebar_run
       [SocketCloses 0, ReconnectFires 0, SocketCloses 1, ReconnectFires 0,
        SocketCloses 2, ReconnectFires 0, SocketCloses 3, ReconnectFires 0,
        SocketCloses 4, ReconnectFires 0, SocketCloses 5, ReconnectFires 0, SocketCloses 6]
       (sidebar_mount (Some retail) (Some ''tok'') ''2025-01-01'')) = 6
   \<and> map rt_delay (reconnects (sidebar_run
       [SocketCloses 0, ReconnectFires 0, SocketCloses 1, ReconnectFires 0,
        SocketCloses 2, ReconnectFires 0, SocketCloses 3, ReconnectFires 0,
        SocketCloses 4, ReconnectFires 0, SocketCloses 5, ReconnectFires 0, SocketCloses 6]
       (sidebar_mount (Some retail) (Some ''tok'') ''2025-01-01''))) = [1000]
   \<and> length (sockets (sidebar_run
       [SocketCloses 0, ReconnectFires 0, SocketCloses 1, ReconnectFires 0,
        SocketCloses 2, ReconnectFires 0, SocketCloses 3, ReconnectFires 0,
        SocketCloses 4, ReconnectFires 0, SocketCloses 5, ReconnectFires 0, SocketCloses 6]
       (sidebar_mount (Some retail) (Some ''tok'') ''2025-01-01''))) = 7
   \<and> map rt_delay (reconnects (sidebar_run
       [SocketCloses 0, ReconnectFires 0, SocketCloses 1]
       (sidebar_mount (Some retail) (Some ''tok'') ''2025-01-01''))) = [1000]"
  by (simp add: sidebar_eval)

text \<open>
  C5, at failing inputs. The cleanup of the connection effect and the handlers of a socket
  read \<open>wsConnection\<close> and \<open>selectedProject\<close> of the render that made them, not the present
  ones. (1) The socket of the selected project is open and the project is deselected:
  the socket is closed, its close event arms a reconnect timer because the project of its
  closure is still there, the timer fires, and a socket for the deselected project opens:
  the sidebar is connected with no project selected. (2) A reconnect timer that is pending
  when the project is deselected stays pending, and fires. (3) The project changes while
  the socket is open: the cleanup holds the \<open>wsConnection\<close> of the first render, which is
  null, so nothing is closed and two sockets are open at once. (4) The sidebar unmounts
  while the socket is open: the same cleanup closes nothing.
\<close>

theorem channel_outlives_deselection:
  "selectedProject (sidebar_run
       [SocketOpens 0, SetProject None, SocketCloses 0, ReconnectFires 0, SocketOpens 1]
       (sidebar_mount (Some retail) (Some ''tok'') ''2025-01-01'')) = None
   \<and> map ws_readyState (sockets (sidebar_run [SocketOpens 0, SetProject None]
       (sidebar_mount (Some retail) (Some ''tok'') ''2025-01-01''))) = [CLOSING]
   \<and> map rt_delay (reconnects (sidebar_run [SocketOpens 0, SetProject None, SocketCloses 0]
       (sidebar_mount (Some retail) (Some ''tok'') ''2025-01-01''))) = [1000]
   \<and> map ws_readyState (sockets (sidebar_run
       [SocketOpens 0, SetProject None, SocketCloses 0, ReconnectFires 0, SocketOpens 1]
       (sidebar_mount (Some retail) (Some ''tok'') ''2025-01-01''))) = [CLOSED, OPEN]
   \<and> map url_project (sockets (sidebar_run
       [SocketOpens 0, SetProject None, SocketCloses 0, ReconnectFires 0, SocketOpens 1]
       (sidebar_mount (Some retail) (Some ''tok'') ''2025-01-01''))) = [''p1'', ''p1'']
   \<and> isConnected (sidebar_run
       [SocketOpens 0, SetProject None, SocketCloses 0, ReconnectFires 0, SocketOpens 1]
       (sidebar_mount (Some retail) (Some ''tok'') ''2025-01-01''))
   \<and> map rt_delay (reconnects (sidebar_run [SocketCloses 0, SetProject None]
       (sidebar_mount (Some retail) (Some ''tok'') ''2025-01-01''))) = [1000]
   \<and> selectedProject (sidebar_run [SocketCloses 0, SetProject None, ReconnectFires 0]
       (sidebar_mount (Some retail) (Some ''tok'') ''2025-01-01'')) = None
   \<and> map ws_readyState (sockets (sidebar_run [SocketCloses 0, SetProject None, ReconnectFires 0]
       (sidebar_mount (Some retail) (Some ''tok'') ''2025-01-01''))) = [CLOSED, CONNECTING]
   \<and> map url_project (sockets (sidebar_run [SocketCloses 0, SetProject None, ReconnectFires 0]
       (sidebar_mount (Some retail) (Some ''tok'') ''2025-01-01''))) = [''p1'', ''p1'']
   \<and> map ws_readyState (sockets (sidebar_run
       [SocketOpens 0, SetProject (Some wholesale), SocketOpens 1]
       (sidebar_mount (Some retail) (Some ''tok'') ''2025-01-01''))) = [OPEN, OPEN]
   \<and> map url_project (sockets (sidebar_run
       [SocketOpens 0, SetProject (Some wholesale), SocketOpens 1]
       (sidebar_mount (Some retail) (Some ''tok'') ''2025-01-01''))) = [''p1'', ''p2'']
   \<and> mounted (sidebar_run [SocketOpens 0, Unmount]
       (sidebar_mount (Some retail) (Some ''tok'') ''2025-01-01'')) = False
   \<and> map ws_readyState (sockets (sidebar_run [SocketOpens 0, Unmount]
       (sidebar_mount (Some retail) (Some ''tok'') ''2025-01-01''))) = [OPEN]"
  by (simp add: sidebar_eval wholesale_def)

lemma deselect_effect:
  assumes "mounted s" "ws_dep s = project_key s" "selectedProject s \<noteq> None"
  shows "sidebar_step (SetProject None) s =
         render_pass False ((poll_effect (s\<lparr>selectedProject := None\<rparr>)
            ((ws_effect (s\<lparr>selectedProject := None\<rparr>) (s\<lparr>selectedProject := None\<rparr>))\<lparr>ws_dep := None\<rparr>))
              \<lparr>poll_dep := isConnected s\<rparr>)"
  using assms by (auto simp: commit_def render_pass_def Let_def project_key_def)

lemma poll_effect_ws_frame:
  "sockets (poll_effect snap s) = sockets s" "reconnects (poll_effect snap s) = reconnects s"
  "wsConnection (poll_effect snap s) = wsConnection s" "ws_cleanup (poll_effect snap s) = ws_cleanup s"
  "connectionRetries (poll_effect snap s) = connectionRetries s"
  by (simp_all add: poll_effect_def Let_def clearInterval_def fetch_pos_def split: option.splits)

lemma render_pass_settled_ws_frame:
  assumes "ws_dep s = project_key s"
  shows "sockets (render_pass f s) = sockets s" "reconnects (render_pass f s) = reconnects s"
    "wsConnection (render_pass f s) = wsConnection s" "isConnected (render_pass f s) = isConnected s"
    "connectionRetries (render_pass f s) = connectionRetries s"
  using assms by (simp_all add: render_pass_def Let_def poll_effect_ws_frame poll_effect_frame)

lemma ws_close_sockets:
  "length (sockets (ws_close w s)) = length (sockets s)"
  "reconnects (ws_close w s) = reconnects s"
  "wsConnection (ws_close w s) = wsConnection s"
  "connectionRetries (ws_close w s) = connectionRetries s"
  by (simp_all add: ws_close_def)

lemma ws_close_closes:
  "w < length (sockets s) \<Longrightarrow> ws_readyState (sockets (ws_close w s) ! w) \<in> {CLOSING, CLOSED}"
  by (cases "ws_readyState (sockets s ! w)") (simp_all add: ws_close_def)

lemma ws_close_keeps_closed:
  "i < length (sockets s) \<Longrightarrow> ws_readyState (sockets s ! i) \<in> {CLOSING, CLOSED} \<Longrightarrow>
   ws_readyState (sockets (ws_close w s) ! i) \<in> {CLOSING, CLOSED}"
  by (cases "i = w") (auto simp: ws_close_def)

lemma conn_ok_ws_close: "conn_ok s \<Longrightarrow> conn_ok (ws_close w s)"
  by (simp add: conn_ok_def ws_close_def)

lemma conn_ok_connect: "conn_ok s \<Longrightarrow> conn_ok (connectWebSocket cl s)"
  by (auto simp: conn_ok_def connectWebSocket_def split: option.splits)

lemma conn_ok_ws_effect: "conn_ok s \<Longrightarrow> conn_ok (ws_effect s s)"
  by (auto simp: conn_ok_def ws_effect_def Let_def ws_close_def connectWebSocket_def
      split: option.splits)

lemma conn_ok_poll_effect: "conn_ok s \<Longrightarrow> conn_ok (poll_effect snap s)"
  by (simp add: conn_ok_def poll_effect_ws_frame poll_effect_frame)

lemma conn_ok_render_pass: "conn_ok s \<Longrightarrow> conn_ok (render_pass f s)"
proof -
  assume a: "conn_ok s"
  have b: "conn_ok (if project_key s \<noteq> ws_dep s then (ws_effect s s)\<lparr>ws_dep := project_key s\<rparr> else s)"
    using a conn_ok_ws_effect[OF a] by (simp add: conn_ok_def)
  have c: "conn_ok ((poll_effect s x)\<lparr>poll_dep := b'\<rparr>)" if "conn_ok x" for x b'
    using conn_ok_poll_effect[OF that, of s] by (simp add: conn_ok_def)
  show ?thesis
    unfolding render_pass_def Let_def using b c[OF b] by simp
qed

lemma conn_ok_commit: "conn_ok s \<Longrightarrow> conn_ok (commit f s)"
  by (simp add: commit_def conn_ok_render_pass)

lemma conn_ok_step: "conn_ok s \<Longrightarrow> conn_ok (sidebar_step e s)"
proof (cases e)
  case (SetProject p)
  assume "conn_ok s"
  then have "conn_ok (s\<lparr>selectedProject := p\<rparr>)" by (simp add: conn_ok_def)
  then show ?thesis using SetProject by (simp add: conn_ok_commit)
next
  case (SetDate d)
  assume "conn_ok s"
  then have "conn_ok (s\<lparr>selectedDate := d\<rparr>)" by (simp add: conn_ok_def)
  then show ?thesis using SetDate by (simp add: conn_ok_commit)
next
  case (DayChanges d)
  assume "conn_ok s"
  then show ?thesis using DayChanges by (simp add: conn_ok_def)
next
  case (SocketOpens i)
  assume a: "conn_ok s"
  have "conn_ok (onopen i s)" if "i < length (sockets s)"
    using that by (simp add: conn_ok_def onopen_def)
  then show ?thesis using a SocketOpens by (simp add: conn_ok_commit)
next
  case (SocketCloses i)
  assume a: "conn_ok s"
  have "conn_ok (onclose i s)" by (simp add: conn_ok_def onclose_def Let_def)
  then show ?thesis using a SocketCloses by (simp add: conn_ok_commit)
next
  case (SocketMessage i m)
  assume "conn_ok s"
  then show ?thesis using SocketMessage
    by (auto simp: conn_ok_def handleWebSocketMessage_def split: option.splits)
next
  case (ReconnectFires k)
  assume a: "conn_ok s"
  have "conn_ok (reconnect_fires k s)"
    unfolding reconnect_fires_def using a by (intro conn_ok_connect) (simp add: conn_ok_def)
  then show ?thesis using a ReconnectFires by (simp add: conn_ok_commit)
next
  case (PollTick i)
  assume "conn_ok s"
  then show ?thesis using PollTick
    by (auto simp: conn_ok_def poll_tick_def fetch_pos_def split: list.splits option.splits)
next
  case Unmount
  assume "conn_ok s"
  then show ?thesis using Unmount
    by (auto simp: conn_ok_def Let_def clearInterval_def ws_close_def split: option.splits)
qed

lemma conn_ok_run: "conn_ok s \<Longrightarrow> conn_ok (sidebar_run es s)"
  by (induction es arbitrary: s) (simp_all add: conn_ok_step)

lemma conn_ok_mount: "conn_ok (sidebar_mount p tok day)"
  unfolding sidebar_mount_def by (rule conn_ok_commit) (simp add: conn_ok_def)

lemma deselect_result:
  assumes "mounted s" "ws_dep s = project_key s" "selectedProject s \<noteq> None" "conn_ok s"
  shows "wsConnection (sidebar_step (SetProject None) s) = None"
    and "\<not> isConnected (sidebar_step (SetProject None) s)"
    and "reconnects (sidebar_step (SetProject None) s) = reconnects s"
    and "length (sockets (sidebar_step (SetProject None) s)) = length (sockets s)"
    and "wsConnection s = Some w \<Longrightarrow>
           ws_readyState (sockets (sidebar_step (SetProject None) s) ! w) \<in> {CLOSING, CLOSED}"
proof -
  let ?s0 = "s\<lparr>selectedProject := None\<rparr>"
  let ?e = "ws_effect ?s0 ?s0"
  let ?m = "(poll_effect ?s0 (?e\<lparr>ws_dep := None\<rparr>))\<lparr>poll_dep := isConnected s\<rparr>"
  have st: "sidebar_step (SetProject None) s = render_pass False ?m"
    using assms(1-3) by (rule deselect_effect)
  have k: "ws_dep ?m = project_key ?m"
    by (simp add: poll_effect_frame project_key_def ws_effect_frame)
  note f = render_pass_settled_ws_frame[OF k, of False]
  have e1: "wsConnection ?e = None"
    by (simp add: ws_effect_def Let_def ws_close_sockets split: option.splits)
  have e2: "\<not> isConnected ?e"
    using assms(4)
    by (auto simp: ws_effect_def Let_def ws_close_frame conn_ok_def split: option.splits)
  have e3: "reconnects ?e = reconnects s"
    by (simp add: ws_effect_def Let_def ws_close_sockets split: option.splits)
  have e4: "length (sockets ?e) = length (sockets s)"
    by (simp add: ws_effect_def Let_def ws_close_sockets split: option.splits)
  show "wsConnection (sidebar_step (SetProject None) s) = None"
    unfolding st by (simp add: f poll_effect_ws_frame e1)
  show "\<not> isConnected (sidebar_step (SetProject None) s)"
    unfolding st using e2 by (simp add: f poll_effect_frame)
  show "reconnects (sidebar_step (SetProject None) s) = reconnects s"
    unfolding st by (simp add: f poll_effect_ws_frame e3)
  show "length (sockets (sidebar_step (SetProject None) s)) = length (sockets s)"
    unfolding st by (simp add: f poll_effect_ws_frame e4)
  show "ws_readyState (sockets (sidebar_step (SetProject None) s) ! w) \<in> {CLOSING, CLOSED}"
    if w: "wsConnection s = Some w"
  proof -
    have lw: "w < length (sockets s)" using assms(4) w by (simp add: conn_ok_def)
    have "ws_readyState (sockets ?e ! w) \<in> {CLOSING, CLOSED}"
    proof (cases "ws_cleanup s")
      case None
      then show ?thesis using w lw ws_close_closes[of w ?s0]
        by (simp add: ws_effect_def Let_def)
    next
      case (Some c)
      show ?thesis
      proof (cases c)
        case None
        with Some show ?thesis using w lw ws_close_closes[of w ?s0]
          by (simp add: ws_effect_def Let_def)
      next
        case (Some v)
        with \<open>ws_cleanup s = Some c\<close> show ?thesis
          using w lw ws_close_closes[of w "ws_close v ?s0"]
          by (simp add: ws_effect_def Let_def ws_close_sockets)
      qed
    qed
    then show ?thesis unfolding st by (simp add: f poll_effect_ws_frame)
  qed
qed

text \<open>
  What the deselection itself does, in every state the sidebar reaches: the branch
  \<open>!selectedProject\<close> of the connection effect closes the socket that \<open>wsConnection\<close> holds and
  resets the two cells; it opens no socket and touches no timer.
\<close>

lemma deselect_closes_current_socket:
  "let s = sidebar_run evs (sidebar_mount p tok day); s' = sidebar_step (SetProject None) s in
     mounted s \<and> selectedProject s \<noteq> None \<longrightarrow>
       wsConnection s' = None \<and> \<not> isConnected s' \<and>
       (\<forall>w. wsConnection s = Some w \<longrightarrow> ws_readyState (sockets s' ! w) \<in> {CLOSING, CLOSED}) \<and>
       length (sockets s') = length (sockets s) \<and>
       reconnects s' = reconnects s"
proof -
  define s where "s = sidebar_run evs (sidebar_mount p tok day)"
  have ok: "poll_ok s" unfolding s_def by (rule run_ok) (rule mount_ok)
  have c: "conn_ok s" unfolding s_def by (rule conn_ok_run) (rule conn_ok_mount)
  have "wsConnection (sidebar_step (SetProject None) s) = None \<and>
        \<not> isConnected (sidebar_step (SetProject None) s) \<and>
        (\<forall>w. wsConnection s = Some w \<longrightarrow>
           ws_readyState (sockets (sidebar_step (SetProject None) s) ! w) \<in> {CLOSING, CLOSED}) \<and>
        length (sockets (sidebar_step (SetProject None) s)) = length (sockets s) \<and>
        reconnects (sidebar_step (SetProject None) s) = reconnects s"
    if m: "mounted s" and sel: "selectedProject s \<noteq> None"
  proof -
    have k: "ws_dep s = project_key s" using ok m by (simp add: poll_ok_def)
    note r = deselect_result[OF m k sel c]
    show ?thesis using r(1) r(2) r(3) r(4) r(5) by blast
  qed
  then show ?thesis unfolding s_def Let_def by blast
qed

section \<open>Verification: decoding stored messages\<close>

lemma get_with_field_same: "get (with_field k v kvs) k = Some v"
  by (simp add: get_def with_field_def)

lemma opt_get_with_field_same: "opt_get (with_field k v kvs) k = v"
  by (simp add: opt_get_def get_with_field_same)

lemma map_of_filter_other: "k' \<noteq> k \<Longrightarrow> map_of (filter (\<lambda>kv. fst kv \<noteq> k) kvs) k' = map_of kvs k'"
  by (induction kvs) auto

lemma opt_get_with_field_other:
  "k' \<noteq> k \<Longrightarrow> opt_get (with_field k v kvs) k' = opt_get (Obj kvs) k'"
  by (simp add: opt_get_def get_def with_field_def map_of_filter_other)

lemma get_with_field_other:
  "k' \<noteq> k \<Longrightarrow> get (with_field k v kvs) k' = get (Obj kvs) k'"
  by (simp add: get_def with_field_def map_of_filter_other)

lemma object_facts: "is_object v \<Longrightarrow> truthy v \<and> js_typeof v = ''object'' \<and> (\<forall>s. v \<noteq> Str s)"
  by (cases v) (simp_all add: js_typeof_def)

lemma get_Obj: "get (Obj kvs) k = Some (opt_get (Obj kvs) k)"
  by (simp add: get_def opt_get_def)

lemma build_message_metadata_field:
  "build_message (with_field ''metadata'' x kvs) q m = build_message (Obj kvs) q m"
  by (simp add: build_message_def opt_get_with_field_other)

lemma build_message_query_result_field:
  "build_message (with_field ''query_result'' x kvs) q m = build_message (Obj kvs) q m"
  by (simp add: build_message_def opt_get_with_field_other)

lemma format_message_metadata:
  "format_message rt (with_field ''metadata'' x kvs) =
     Some (build_message (Obj kvs) (decode_query_result rt (opt_get (Obj kvs) ''query_result''))
             (decode_metadata rt x))"
  by (simp add: format_message_def get_with_field_other opt_get_with_field_same
      build_message_metadata_field get_Obj)

lemma format_message_query_result:
  "format_message rt (with_field ''query_result'' x kvs) =
     Some (build_message (Obj kvs) (decode_query_result rt x)
             (decode_metadata rt (opt_get (Obj kvs) ''metadata'')))"
  by (simp add: format_message_def get_with_field_same opt_get_with_field_other
      build_message_query_result_field)

lemma decode_metadata_parsed:
  assumes "JSON_parse rt s = Some v" "is_object v" "s \<noteq> []"
  shows "decode_metadata rt (Str s) = decode_metadata rt v"
  using assms by (cases v) (simp_all add: decode_metadata_def or_else_def js_typeof_def)

lemma decode_query_result_parsed:
  assumes "JSON_parse rt s = Some v" "is_object v"
  shows "decode_query_result rt (Str s) = decode_query_result rt v"
  using assms by (cases v) (simp_all add: decode_query_result_def)

lemma decode_metadata_unparseable:
  "JSON_parse rt s = None \<Longrightarrow> decode_metadata rt (Str s) = decode_metadata rt (Obj [])"
  by (simp add: decode_metadata_def or_else_def js_typeof_def)

lemma decode_query_result_unparseable:
  "JSON_parse rt s = None \<Longrightarrow> decode_query_result rt (Str s) = decode_query_result rt Null"
  by (simp add: decode_query_result_def)

lemma metadata_string_or_object:
  assumes "JSON_parse rt s = Some v" "is_object v" "s \<noteq> []"
  shows "format_message rt (with_field ''metadata'' (Str s) kvs) =
         format_message rt (with_field ''metadata'' v kvs)"
  by (simp add: format_message_metadata decode_metadata_parsed[OF assms])

lemma query_result_string_or_object:
  assumes "JSON_parse rt s = Some v" "is_object v"
  shows "format_message rt (with_field ''query_result'' (Str s) kvs) =
         format_message rt (with_field ''query_result'' v kvs)"
  by (simp add: format_message_query_result decode_query_result_parsed[OF assms])

lemma metadata_unparseable:
  assumes "JSON_parse rt s = None"
  shows "format_message rt (with_field ''metadata'' (Str s) kvs) =
         format_message rt (with_field ''metadata'' (Obj []) kvs)"
  by (simp add: format_message_metadata decode_metadata_unparseable[OF assms])

lemma query_result_unparseable:
  assumes "JSON_parse rt s = None"
  shows "format_message rt (with_field ''query_result'' (Str s) kvs) =
         format_message rt (with_field ''query_result'' Null kvs)"
  by (simp add: format_message_query_result decode_query_result_unparseable[OF assms])

lemma format_message_total: "format_message rt (Obj kvs) \<noteq> None"
  by (simp add: format_message_def get_def)

text \<open>
  C4. For every stored record (its fields \<open>kvs\<close>) and every string \<open>s\<close> that parses to an
  object \<open>v\<close>: loading the record with \<open>metadata\<close> (or \<open>query_result\<close>) stored as the string
  \<open>s\<close> gives the same \<open>Message\<close> as loading it with the field stored as \<open>v\<close>. When the
  string does not parse, the \<open>Message\<close> is the one of a record with empty \<open>metadata\<close> (or a
  \<open>null\<close> \<open>query_result\<close>); and the loader returns a \<open>Message\<close>, not an exception, for
  every record.
\<close>

theorem load_string_or_object_same_message:
  "(JSON_parse rt s = Some v \<and> is_object v \<and> s \<noteq> [] \<longrightarrow>
      format_message rt (with_field ''metadata'' (Str s) kvs) =
      format_message rt (with_field ''metadata'' v kvs) \<and>
      format_message rt (with_field ''query_result'' (Str s) kvs) =
      format_message rt (with_field ''query_result'' v kvs))
   \<and> (JSON_parse rt s = None \<longrightarrow>
      format_message rt (with_field ''metadata'' (Str s) kvs) =
      format_message rt (with_field ''metadata'' (Obj []) kvs) \<and>
      format_message rt (with_field ''query_result'' (Str s) kvs) =
      format_message rt (with_field ''query_result'' Null kvs))
   \<and> format_message rt (with_field ''metadata'' (Str s) kvs) \<noteq> None
   \<and> format_message rt (with_field ''query_result'' (Str s) kvs) \<noteq> None"
proof (intro conjI impI)
  assume a: "JSON_parse rt s = Some v \<and> is_object v \<and> s \<noteq> []"
  show "format_message rt (with_field ''metadata'' (Str s) kvs) =
      format_message rt (with_field ''metadata'' v kvs)"
    using a by (intro metadata_string_or_object) simp_all
  show "format_message rt (with_field ''query_result'' (Str s) kvs) =
      format_message rt (with_field ''query_result'' v kvs)"
    using a by (intro query_result_string_or_object) simp_all
next
  assume "JSON_parse rt s = None"
  then show "format_message rt (with_field ''metadata'' (Str s) kvs) =
      format_message rt (with_field ''metadata'' (Obj []) kvs)"
    by (rule metadata_unparseable)
next
  assume "JSON_parse rt s = None"
  then show "format_message rt (with_field ''query_result'' (Str s) kvs) =
      format_message rt (with_field ''query_result'' Null kvs)"
    by (rule query_result_unparseable)
next
  show "format_message rt (with_field ''metadata'' (Str s) kvs) \<noteq> None"
    unfolding with_field_def by (rule format_message_total)
  show "format_message rt (with_field ''query_result'' (Str s) kvs) \<noteq> None"
    unfolding with_field_def by (rule format_message_total)
qed

theorem load_string_or_object_same_message_witness:
  "JSON_parse test_rt chart_json = Some (Obj [(''chart'', Num 1)])
   \<and> is_object (Obj [(''chart'', Num 1)]) \<and> chart_json \<noteq> []
   \<and> format_message test_rt (with_field ''metadata'' (Str chart_json) [(''id'', Str ''m1''), (''role'', Str ''user'')]) =
       format_message test_rt (with_field ''metadata'' (Obj [(''chart'', Num 1)]) [(''id'', Str ''m1''), (''role'', Str ''user'')])
   \<and> map_option (\<lambda>m. opt_get m ''chart'')
        (format_message test_rt (with_field ''metadata'' (Str chart_json) [(''id'', Str ''m1''), (''role'', Str ''user'')]))
       = Some (Num 1)
   \<and> JSON_parse test_rt ''{oops'' = None
   \<and> format_message test_rt (with_field ''metadata'' (Str ''{oops'') [(''id'', Str ''m1'')]) =
       format_message test_rt (with_field ''metadata'' (Obj []) [(''id'', Str ''m1'')])"
proof -
  have p: "JSON_parse test_rt chart_json = Some (Obj [(''chart'', Num 1)])"
    by (simp add: test_rt_def)
  have n: "chart_json \<noteq> []" by (simp add: chart_json_def)
  have q: "JSON_parse test_rt ''{oops'' = None" by (simp add: test_rt_def chart_json_def)
  have a: "format_message test_rt (with_field ''metadata'' (Str chart_json) [(''id'', Str ''m1''), (''role'', Str ''user'')]) =
       format_message test_rt (with_field ''metadata'' (Obj [(''chart'', Num 1)]) [(''id'', Str ''m1''), (''role'', Str ''user'')])"
    using load_string_or_object_same_message
      [of test_rt chart_json "Obj [(''chart'', Num 1)]" "[(''id'', Str ''m1''), (''role'', Str ''user'')]"] p n
    by simp
  have b: "format_message test_rt (with_field ''metadata'' (Str ''{oops'') [(''id'', Str ''m1'')]) =
       format_message test_rt (with_field ''metadata'' (Obj []) [(''id'', Str ''m1'')])"
    using load_string_or_object_same_message
      [of test_rt "''{oops''" Null "[(''id'', Str ''m1'')]"] q
    by simp
  have c: "map_option (\<lambda>m. opt_get m ''chart'')
        (format_message test_rt (with_field ''metadata'' (Str chart_json) [(''id'', Str ''m1''), (''role'', Str ''user'')]))
       = Some (Num 1)"
    unfolding a
    by (simp add: format_message_metadata decode_metadata_def decode_query_result_def
        build_message_def Let_def opt_get_def get_def or_else_def js_typeof_def)
  from p n a b c q show ?thesis by simp
qed

section \<open>Verification: sending a chat message\<close>

lemma message_fields:
  "sender (userMessage cl now) = Str ''user''"
  "content (userMessage cl now) = Str (trim (c_message cl))"
  "sender (errorResponse cl now msg) = Str ''ai''"
  "intent (errorResponse cl now msg) = Str ''error''"
  "content (errorResponse cl now msg) = Str (errorContent cl msg)"
  "sender (aiResponse now data) = Str ''ai''"
  "content (aiResponse now data) = opt_get data ''final_answer''"
  by (simp_all add: sender_def content_def intent_def userMessage_def errorResponse_def
      aiResponse_def opt_get_def get_def)

lemma assemble_sender: "assemble rt cl now data = Inr m \<Longrightarrow> m = aiResponse now data"
  by (auto simp: assemble_def split: option.splits if_splits)

lemma reply_Inr: "reply rt cl now r = Inr m \<Longrightarrow> \<exists>data. m = aiResponse now data"
  by (auto simp: reply_def split: fetch_result.splits if_splits option.splits body.splits
      dest: assemble_sender)

lemma settle_messages:
  "messages (settle rt cl now r s) =
     messages s @ [case reply rt cl now r of Inl msg \<Rightarrow> errorResponse cl now msg | Inr ai \<Rightarrow> ai]"
  by (simp add: settle_def catch_finally_def split: sum.splits)

lemma settle_appends_one_ai:
  "\<exists>m. messages (settle rt cl now r s) = messages s @ [m] \<and> sender m = Str ''ai''"
proof (cases "reply rt cl now r")
  case (Inl msg)
  then show ?thesis by (simp add: settle_messages message_fields)
next
  case (Inr ai)
  then obtain data where "ai = aiResponse now data" using reply_Inr by blast
  with Inr show ?thesis by (simp add: settle_messages message_fields)
qed

lemma settle_rest:
  "isTyping (settle rt cl now r s) = False"
  "requests (settle rt cl now r s) = requests s"
  "message (settle rt cl now r s) = message s"
  "currentConversationId (settle rt cl now r s) = currentConversationId s"
  by (simp_all add: settle_def catch_finally_def split: sum.splits)



lemma handleSendMessage_no_token:
  assumes "trim (c_message cl) \<noteq> []" "c_project cl \<noteq> None" "\<not> c_isTyping cl"
    and "\<not> present (chat_token s)"
  shows "messages (handleSendMessage cl now s) =
           messages s @ [userMessage cl now,
             errorResponse cl now ''No authentication token found. Please log in again.'']"
    and "message (handleSendMessage cl now s) = []"
    and "\<not> isTyping (handleSendMessage cl now s)"
    and "requests (handleSendMessage cl now s) = requests s"
  using assms by (auto simp add: handleSendMessage_def Let_def catch_finally_def)

lemmas chat_eval = chat_mount_def conversation_effect_def present_def show_welcome_def
  handleSendMessage_def closure_of_def Let_def settle_def reply_def assemble_def catch_finally_def
  rerender_def conversation_deps_def project_key_def remove_nth_def load_done_def json_ok_def
  retail_def trim_def is_space_def format_message_def build_message_def decode_metadata_def
  decode_query_result_def get_def opt_get_def or_else_def js_typeof_def test_rt_def
  content_def sender_def intent_def userMessage_def errorResponse_def aiResponse_def
  welcome_message_def

text \<open>
  C1, as stated, fails. Conversation A is shown and a question is sent for it; while the
  request is in flight the user switches to conversation B, whose messages are loaded and
  shown; then the request settles. Its answer is appended to the list of B.
\<close>

theorem stale_response_lands_in_other_conversation:
  "map cq_conversation_id (requests (chat_run test_rt
      [Loaded 0 1 (history ''a1'' ''user'' ''question in A''),
       Type ''how many orders?'', Submit 2,
       SelectConversation (Some ''B'') 3,
       Loaded 0 4 (history ''b1'' ''assistant'' ''answer in B'')]
      (chat_mount (Some retail) False (Some ''A'') (Some ''tok'') 0))) = [Some ''A'']
   \<and> currentConversationId (chat_run test_rt
      [Loaded 0 1 (history ''a1'' ''user'' ''question in A''),
       Type ''how many orders?'', Submit 2,
       SelectConversation (Some ''B'') 3,
       Loaded 0 4 (history ''b1'' ''assistant'' ''answer in B'')]
      (chat_mount (Some retail) False (Some ''A'') (Some ''tok'') 0)) = Some ''B''
   \<and> map content (messages (chat_run test_rt
      [Loaded 0 1 (history ''a1'' ''user'' ''question in A''),
       Type ''how many orders?'', Submit 2,
       SelectConversation (Some ''B'') 3,
       Loaded 0 4 (history ''b1'' ''assistant'' ''answer in B'')]
      (chat_mount (Some retail) False (Some ''A'') (Some ''tok'') 0))) = [Str ''answer in B'']
   \<and> map content (messages (chat_run test_rt
      [Loaded 0 1 (history ''a1'' ''user'' ''question in A''),
       Type ''how many orders?'', Submit 2,
       SelectConversation (Some ''B'') 3,
       Loaded 0 4 (history ''b1'' ''assistant'' ''answer in B''),
       Settles 0 5 (json_ok (Obj [(''final_answer'', Str ''answer for A'')]))]
      (chat_mount (Some retail) False (Some ''A'') (Some ''tok'') 0)))
       = [Str ''answer in B'', Str ''answer for A'']"
  by (simp add: chat_eval history_def)

lemma ai_message_sender: "sender (ai_message rt cl now r) = Str ''ai''"
proof (cases "reply rt cl now r")
  case (Inl msg)
  then show ?thesis by (simp add: ai_message_def message_fields)
next
  case (Inr ai)
  then obtain data where "ai = aiResponse now data" using reply_Inr by blast
  with Inr show ?thesis by (simp add: ai_message_def message_fields)
qed

text \<open>
  C1, as amended. When request \<open>k\<close> settles, the message made from its outcome and from
  the closure that sent it, a message of the assistant, is appended to the list that is
  displayed, whatever conversation \<open>c\<close> is selected at that moment: the conversation id of
  the request is not compared with it.
\<close>

theorem settled_response_appended_to_displayed_list:
  "k < length (requests s) \<longrightarrow>
     messages (chat_step rt (Settles k now r) (s\<lparr>currentConversationId := c\<rparr>)) =
       messages s @ [ai_message rt (cq_closure (requests s ! k)) now r] \<and>
     sender (ai_message rt (cq_closure (requests s ! k)) now r) = Str ''ai'' \<and>
     currentConversationId (chat_step rt (Settles k now r) (s\<lparr>currentConversationId := c\<rparr>)) = c"
  by (simp add: settle_messages settle_rest ai_message_def[symmetric] ai_message_sender)

theorem settled_response_appended_to_displayed_list_witness:
  "0 < length (requests (chat_run test_rt [Type ''how many orders?'', Submit 2]
        (chat_mount (Some retail) False (Some ''A'') (Some ''tok'') 0)))
   \<and> map cq_conversation_id (requests (chat_run test_rt [Type ''how many orders?'', Submit 2]
        (chat_mount (Some retail) False (Some ''A'') (Some ''tok'') 0))) = [Some ''A'']
   \<and> messages (chat_step test_rt (Settles 0 5 (Rejected ''Failed to fetch''))
        ((chat_run test_rt [Type ''how many orders?'', Submit 2]
           (chat_mount (Some retail) False (Some ''A'') (Some ''tok'') 0))
         \<lparr>currentConversationId := Some ''B''\<rparr>)) =
       messages (chat_run test_rt [Type ''how many orders?'', Submit 2]
           (chat_mount (Some retail) False (Some ''A'') (Some ''tok'') 0)) @
       [ai_message test_rt
          (cq_closure (requests (chat_run test_rt [Type ''how many orders?'', Submit 2]
             (chat_mount (Some retail) False (Some ''A'') (Some ''tok'') 0)) ! 0))
          5 (Rejected ''Failed to fetch'')]
   \<and> content (ai_message test_rt
          (cq_closure (requests (chat_run test_rt [Type ''how many orders?'', Submit 2]
             (chat_mount (Some retail) False (Some ''A'') (Some ''tok'') 0)) ! 0))
          5 (Rejected ''Failed to fetch''))
       = Str ''I'm sorry, I encountered an error: Failed to fetch''"
proof -
  let ?s = "chat_run test_rt [Type ''how many orders?'', Submit 2]
        (chat_mount (Some retail) False (Some ''A'') (Some ''tok'') 0)"
  have l: "0 < length (requests ?s)" by (simp add: chat_eval)
  have c: "map cq_conversation_id (requests ?s) = [Some ''A'']" by (simp add: chat_eval)
  have m: "messages (chat_step test_rt (Settles 0 5 (Rejected ''Failed to fetch''))
        (?s\<lparr>currentConversationId := Some ''B''\<rparr>)) =
       messages ?s @ [ai_message test_rt (cq_closure (requests ?s ! 0)) 5 (Rejected ''Failed to fetch'')]"
    using settled_response_appended_to_displayed_list
      [of 0 ?s test_rt 5 "Rejected ''Failed to fetch''" "Some ''B''"] l
    by blast
  have e: "content (ai_message test_rt (cq_closure (requests ?s ! 0)) 5 (Rejected ''Failed to fetch''))
       = Str ''I'm sorry, I encountered an error: Failed to fetch''"
    by (simp add: chat_eval ai_message_def errorContent_def)
  from l c m e show ?thesis by (intro conjI)
qed




lemma failed_reply: "failed r \<Longrightarrow> \<exists>msg. reply rt cl now r = Inl msg"
  by (auto simp: failed_def reply_def split: fetch_result.splits option.splits)

lemma settle_error:
  "reply rt cl now r = Inl msg \<Longrightarrow>
   messages (settle rt cl now r s) = messages s @ [errorResponse cl now msg] \<and>
   error (settle rt cl now r s) = Some msg"
  by (simp add: settle_def catch_finally_def)

lemma reply_success:
  assumes "ok resp" "body resp = Json data" "data \<noteq> Null" "data \<noteq> Undefined"
    and "c_processing cl \<longrightarrow> (\<exists>t. opt_get data ''final_answer'' = Str t)"
  shows "reply rt cl now (Resolved resp) = Inr (aiResponse now data)"
proof -
  have g: "get data ''final_answer'' = Some (opt_get data ''final_answer'')"
    using assms(3,4) by (cases data) (simp_all add: get_def opt_get_def)
  show ?thesis
    using assms(1,2,5) by (auto simp: reply_def assemble_def g)
qed

lemma starts_with_append: "starts_with (a @ b) a"
  by (induction a) simp_all

text \<open>
  C7. However a \<open>/chat/query\<close> call ends, exactly one message is appended, and it is a
  message of the assistant. When the call fails (the request is rejected, or the
  response is not \<open>ok\<close>, 401 included) the message is the error response, with intent
  \<open>error\<close> and a content that starts with the apology and the message of the error, which
  is also shown in the banner. When the token is missing, no call is made and the error
  response follows the user's message at once. When the response is \<open>ok\<close> and carries a
  JSON object, the message is the one assembled from it, with \<open>final_answer\<close> as content.
\<close>

theorem chat_request_always_answered:
  "(\<exists>m. messages (settle rt cl now r s) = messages s @ [m] \<and> sender m = Str ''ai'')
   \<and> (failed r \<longrightarrow>
         (\<exists>msg. messages (settle rt cl now r s) = messages s @ [errorResponse cl now msg] \<and>
                error (settle rt cl now r s) = Some msg))
   \<and> messages (settle rt cl now (Rejected e) s) = messages s @ [errorResponse cl now e]
   \<and> (\<not> ok resp \<and> http_status resp = 401 \<longrightarrow>
         messages (settle rt cl now (Resolved resp) s) =
           messages s @ [errorResponse cl now ''Authentication expired. Please log in again.''])
   \<and> (trim (c_message cl) \<noteq> [] \<and> c_project cl \<noteq> None \<and> \<not> c_isTyping cl \<and>
        \<not> present (chat_token s) \<longrightarrow>
         messages (handleSendMessage cl now s) =
           messages s @ [userMessage cl now,
             errorResponse cl now ''No authentication token found. Please log in again.''] \<and>
         requests (handleSendMessage cl now s) = requests s)
   \<and> sender (errorResponse cl now msg) = Str ''ai''
   \<and> intent (errorResponse cl now msg) = Str ''error''
   \<and> content (errorResponse cl now msg) = Str (errorContent cl msg)
   \<and> starts_with (errorContent cl msg) (''I'm sorry, I encountered an error: '' @ msg)
   \<and> (ok resp \<and> body resp = Json data \<and> data \<noteq> Null \<and> data \<noteq> Undefined \<and>
        (c_processing cl \<longrightarrow> (\<exists>t. opt_get data ''final_answer'' = Str t)) \<longrightarrow>
         messages (settle rt cl now (Resolved resp) s) = messages s @ [aiResponse now data] \<and>
         content (aiResponse now data) = opt_get data ''final_answer'')"
proof (intro conjI impI)
  show "\<exists>m. messages (settle rt cl now r s) = messages s @ [m] \<and> sender m = Str ''ai''"
    by (rule settle_appends_one_ai)
next
  assume "failed r"
  then obtain msg where "reply rt cl now r = Inl msg" using failed_reply by blast
  then show "\<exists>msg. messages (settle rt cl now r s) = messages s @ [errorResponse cl now msg] \<and>
                error (settle rt cl now r s) = Some msg"
    using settle_error by blast
next
  show "messages (settle rt cl now (Rejected e) s) = messages s @ [errorResponse cl now e]"
    by (simp add: settle_messages reply_def)
next
  assume "\<not> ok resp \<and> http_status resp = 401"
  then show "messages (settle rt cl now (Resolved resp) s) =
           messages s @ [errorResponse cl now ''Authentication expired. Please log in again.'']"
    by (simp add: settle_messages reply_def)
next
  assume a: "trim (c_message cl) \<noteq> [] \<and> c_project cl \<noteq> None \<and> \<not> c_isTyping cl \<and>
        \<not> present (chat_token s)"
  then show "messages (handleSendMessage cl now s) =
           messages s @ [userMessage cl now,
             errorResponse cl now ''No authentication token found. Please log in again.'']"
    by (intro handleSendMessage_no_token(1)) simp_all
  from a show "requests (handleSendMessage cl now s) = requests s"
    by (intro handleSendMessage_no_token(4)) simp_all
next
  show "starts_with (errorContent cl msg) (''I'm sorry, I encountered an error: '' @ msg)"
    unfolding errorContent_def append_assoc[symmetric] by (rule starts_with_append)
next
  assume a: "ok resp \<and> body resp = Json data \<and> data \<noteq> Null \<and> data \<noteq> Undefined \<and>
        (c_processing cl \<longrightarrow> (\<exists>t. opt_get data ''final_answer'' = Str t))"
  then have "reply rt cl now (Resolved resp) = Inr (aiResponse now data)"
    by (intro reply_success) simp_all
  then show "messages (settle rt cl now (Resolved resp) s) = messages s @ [aiResponse now data]"
    by (simp add: settle_messages)
  show "content (aiResponse now data) = opt_get data ''final_answer''"
    by (rule message_fields)
qed (simp_all add: message_fields)

theorem chat_request_always_answered_witness:
  "failed (Resolved server_error)
   \<and> map content (messages (settle test_rt plain_closure 9 (Resolved server_error)
        (chat_mount (Some retail) False None (Some ''tok'') 0)))
       = [Str (welcome_text ''Retail''),
          Str ''I'm sorry, I encountered an error: Server error: 500'']
   \<and> (\<exists>msg. messages (settle test_rt plain_closure 9 (Resolved server_error)
          (chat_mount (Some retail) False None (Some ''tok'') 0)) =
        messages (chat_mount (Some retail) False None (Some ''tok'') 0) @
          [errorResponse plain_closure 9 msg] \<and>
        error (settle test_rt plain_closure 9 (Resolved server_error)
          (chat_mount (Some retail) False None (Some ''tok'') 0)) = Some msg)
   \<and> \<not> present (chat_token (chat_mount (Some retail) False None None 0))
   \<and> map sender (messages (handleSendMessage plain_closure 7
        (chat_mount (Some retail) False None None 0)))
       = [Str ''ai'', Str ''user'', Str ''ai'']"
proof -
  have f: "failed (Resolved server_error)" by (simp add: failed_def server_error_def)
  have c: "map content (messages (settle test_rt plain_closure 9 (Resolved server_error)
        (chat_mount (Some retail) False None (Some ''tok'') 0)))
       = [Str (welcome_text ''Retail''),
          Str ''I'm sorry, I encountered an error: Server error: 500'']"
    by (simp add: chat_eval plain_closure_def server_error_def errorContent_def decimal.simps)
  have e: "\<exists>msg. messages (settle test_rt plain_closure 9 (Resolved server_error)
          (chat_mount (Some retail) False None (Some ''tok'') 0)) =
        messages (chat_mount (Some retail) False None (Some ''tok'') 0) @
          [errorResponse plain_closure 9 msg] \<and>
        error (settle test_rt plain_closure 9 (Resolved server_error)
          (chat_mount (Some retail) False None (Some ''tok'') 0)) = Some msg"
    using chat_request_always_answered
      [of test_rt plain_closure 9 "Resolved server_error"
          "chat_mount (Some retail) False None (Some ''tok'') 0"] f
    by blast
  have p: "\<not> present (chat_token (chat_mount (Some retail) False None None 0))"
    by (simp add: chat_eval)
  have n: "map sender (messages (handleSendMessage plain_closure 7
        (chat_mount (Some retail) False None None 0)))
       = [Str ''ai'', Str ''user'', Str ''ai'']"
    by (simp add: chat_eval plain_closure_def)
  from f c e p n show ?thesis by (intro conjI)
qed

lemma show_welcome_frame:
  "requests (show_welcome txt p b now s) = requests s"
  "deferred (show_welcome txt p b now s) = deferred s"
  "isTyping (show_welcome txt p b now s) = isTyping s"
  by (simp_all add: show_welcome_def split: option.splits)

lemma rerender_frame:
  "requests (rerender now old s) = requests s"
  "deferred (rerender now old s) = deferred s"
  "isTyping (rerender now old s) = isTyping s"
  by (simp_all add: rerender_def conversation_effect_def show_welcome_frame)

lemma load_done_frame:
  "requests (load_done rt now ld r s) = requests s"
  "deferred (load_done rt now ld r s) = deferred s"
  "isTyping (load_done rt now ld r s) = isTyping s"
  by (simp_all add: load_done_def show_welcome_frame
      split: fetch_result.splits body.splits option.splits jsval.splits)

lemma serial_submit: "serial s \<Longrightarrow> serial (handleSendMessage (closure_of s) now s)"
  by (auto simp: serial_def handleSendMessage_def closure_of_def Let_def catch_finally_def)

lemma serial_settle:
  assumes "serial s" "k < length (requests s)"
  shows "serial (settle rt cl now r (s\<lparr>requests := remove_nth k (requests s)\<rparr>))"
proof -
  from assms have "remove_nth k (requests s) = []"
    by (cases "requests s") (auto simp: serial_def remove_nth_def)
  with assms(1) show ?thesis
    by (simp add: serial_def settle_def catch_finally_def split: sum.splits)
qed

lemma serial_step: "serial s \<Longrightarrow> form_event e \<Longrightarrow> serial (chat_step rt e s)"
proof (cases e)
  case (Submit now)
  assume "serial s"
  then show ?thesis using Submit by (simp add: serial_submit)
next
  case (Settles k now r)
  assume "serial s"
  then show ?thesis using Settles by (simp add: serial_settle)
qed (simp_all add: serial_def rerender_frame load_done_frame)

lemma serial_run:
  "serial s \<Longrightarrow> \<forall>e \<in> set es. form_event e \<Longrightarrow> serial (chat_run rt es s)"
  by (induction es arbitrary: s) (simp_all add: serial_step)

lemma serial_mount: "serial (chat_mount p b c tok now)"
  by (simp add: serial_def chat_mount_def conversation_effect_def show_welcome_frame)

lemma form_submissions_serialized:
  "\<forall>e \<in> set es. form_event e \<Longrightarrow> length (requests (chat_run rt es (chat_mount p b c tok now))) \<le> 1"
  using serial_run[OF serial_mount] by (simp add: serial_def)

text \<open>
  C10, at a failing input. With a project selected and nothing in flight, a suggestion
  is clicked three times within 100 ms. The first click sets the input; the calls of the
  second and the third click belong to the render that followed, where the input holds the
  suggestion and \<open>isTyping\<close> is false. Both pass the guard: two user messages are appended
  and two requests are in flight at once, and when the second request settles before the
  first, the answers stand in the list in that order.
\<close>

theorem deferred_sends_bypass_guard:
  "map c_isTyping (deferred (chat_run test_rt
      [SuggestionClick ''show trend'', SuggestionClick ''show trend'',
       SuggestionClick ''show trend'']
      (chat_mount (Some retail) False None (Some ''tok'') 0))) = [False, False, False]
   \<and> map c_message (deferred (chat_run test_rt
      [SuggestionClick ''show trend'', SuggestionClick ''show trend'',
       SuggestionClick ''show trend'']
      (chat_mount (Some retail) False None (Some ''tok'') 0))) = [[], ''show trend'', ''show trend'']
   \<and> isTyping (chat_run test_rt
      [SuggestionClick ''show trend'', SuggestionClick ''show trend'',
       SuggestionClick ''show trend'', DeferredFires 0 100, DeferredFires 0 130]
      (chat_mount (Some retail) False None (Some ''tok'') 0))
   \<and> length (requests (chat_run test_rt
      [SuggestionClick ''show trend'', SuggestionClick ''show trend'',
       SuggestionClick ''show trend'', DeferredFires 0 100, DeferredFires 0 130]
      (chat_mount (Some retail) False None (Some ''tok'') 0))) = 1
   \<and> length (requests (chat_run test_rt
      [SuggestionClick ''show trend'', SuggestionClick ''show trend'',
       SuggestionClick ''show trend'', DeferredFires 0 100, DeferredFires 0 130,
       DeferredFires 0 160]
      (chat_mount (Some retail) False None (Some ''tok'') 0))) = 2
   \<and> map content (messages (chat_run test_rt
      [SuggestionClick ''show trend'', SuggestionClick ''show trend'',
       SuggestionClick ''show trend'', DeferredFires 0 100, DeferredFires 0 130,
       DeferredFires 0 160,
       Settles 1 900 (json_ok (Obj [(''final_answer'', Str ''second answer'')])),
       Settles 0 950 (json_ok (Obj [(''final_answer'', Str ''first answer'')]))]
      (chat_mount (Some retail) False None (Some ''tok'') 0)))
     = [Str (welcome_text ''Retail''), Str ''show trend'', Str ''show trend'',
        Str ''second answer'', Str ''first answer'']"
  by (simp add: chat_eval)

section \<open>Verification: the content type of responses\<close>

lemma upload_done_not_json:
  "\<not> json_content_type resp \<Longrightarrow>
   upload_done rt files (Resolved resp) s =
     upload_failed (''Server error: Expected JSON but received HTML (Status: '' @
                 decimal (http_status resp) @ '')'') s"
  by (simp add: upload_done_def json_content_type_def)

lemma reply_ignores_content_type:
  "reply rt cl now (Resolved (resp\<lparr>content_type := ct\<rparr>)) = reply rt cl now (Resolved resp)"
  by (simp add: reply_def split: option.splits)

text \<open>
  C9, as stated, fails on the chat path. A response to \<open>/chat/query\<close> whose content type is
  \<open>text/html\<close> and whose body happens to be JSON is parsed and shown as an answer, with no
  error; and an \<open>ok\<close> response with an HTML body ends as the parser's error message, not as
  an error about the content type.
\<close>

theorem chat_parses_body_whatever_content_type:
  "\<not> json_content_type \<lparr>ok = True, http_status = 200, content_type = Some ''text/html'',
        body = Json (Obj [(''final_answer'', Str ''42 orders'')])\<rparr>
   \<and> map content (messages (settle test_rt plain_closure 9
        (Resolved \<lparr>ok = True, http_status = 200, content_type = Some ''text/html'',
           body = Json (Obj [(''final_answer'', Str ''42 orders'')])\<rparr>)
        (chat_mount (Some retail) False None (Some ''tok'') 0)))
       = [Str (welcome_text ''Retail''), Str ''42 orders'']
   \<and> error (settle test_rt plain_closure 9
        (Resolved \<lparr>ok = True, http_status = 200, content_type = Some ''text/html'',
           body = Json (Obj [(''final_answer'', Str ''42 orders'')])\<rparr>)
        (chat_mount (Some retail) False None (Some ''tok'') 0)) = None
   \<and> map content (messages (settle test_rt plain_closure 9
        (Resolved \<lparr>ok = True, http_status = 200, content_type = Some ''text/html'',
           body = NotJson ''Unexpected token''\<rparr>)
        (chat_mount (Some retail) False None (Some ''tok'') 0)))
       = [Str (welcome_text ''Retail''),
          Str ''I'm sorry, I encountered an error: Unexpected token'']"
  by (simp add: chat_eval plain_closure_def json_content_type_def errorContent_def)

text \<open>
  C9, as amended. In \<open>handleUpload\<close> a response whose content type does not contain
  \<open>application/json\<close> (or is missing) is never parsed: whatever its body, every file is
  marked as an error with the message that HTML was received, that message is shown to
  the user, \<open>onUploadComplete\<close> is not called and \<open>isUploading\<close> ends false. The chat path
  does not look at the content type: its outcome is the same for every content type.
\<close>

theorem upload_validates_content_type:
  "\<not> json_content_type resp \<longrightarrow>
     (\<forall>f \<in> set (uploadFiles (upload_done rt files (Resolved resp) s)).
        uf_status f = ''error'' \<and>
        uf_error f = Some (''Server error: Expected JSON but received HTML (Status: '' @
                 decimal (http_status resp) @ '')''))
     \<and> alerts (upload_done rt files (Resolved resp) s) =
         alerts s @ [''Server error: Expected JSON but received HTML (Status: '' @
                 decimal (http_status resp) @ '')'']
     \<and> completions (upload_done rt files (Resolved resp) s) = completions s
     \<and> \<not> isUploading (upload_done rt files (Resolved resp) s)
     \<and> (\<forall>b. upload_done rt files (Resolved (resp\<lparr>body := b\<rparr>)) s =
              upload_done rt files (Resolved resp) s)
     \<and> (\<forall>cl now c ct. settle rt cl now (Resolved (resp\<lparr>content_type := ct\<rparr>)) c =
              settle rt cl now (Resolved resp) c)"
proof (intro impI conjI allI ballI)
  assume n: "\<not> json_content_type resp"
  note u = upload_done_not_json[OF n]
  show "alerts (upload_done rt files (Resolved resp) s) =
         alerts s @ [''Server error: Expected JSON but received HTML (Status: '' @
                 decimal (http_status resp) @ '')'']"
    by (simp add: u upload_failed_def)
  show "completions (upload_done rt files (Resolved resp) s) = completions s"
    by (simp add: u upload_failed_def)
  show "\<not> isUploading (upload_done rt files (Resolved resp) s)"
    by (simp add: u upload_failed_def)
  show "upload_done rt files (Resolved (resp\<lparr>body := b\<rparr>)) s =
              upload_done rt files (Resolved resp) s" for b
    using n by (simp add: upload_done_def json_content_type_def)
  show "settle rt cl now (Resolved (resp\<lparr>content_type := ct\<rparr>)) c =
              settle rt cl now (Resolved resp) c" for cl now c ct
    by (simp add: settle_def reply_ignores_content_type)
  fix f assume "f \<in> set (uploadFiles (upload_done rt files (Resolved resp) s))"
  then show "uf_status f = ''error''"
    and "uf_error f = Some (''Server error: Expected JSON but received HTML (Status: '' @
                 decimal (http_status resp) @ '')'')"
    by (auto simp: u upload_failed_def mark_error_def)
qed

theorem upload_validates_content_type_witness:
  "\<not> json_content_type html_page
   \<and> map uf_status (uploadFiles (upload_done test_rt (uploadFiles one_file) (Resolved html_page) one_file))
       = [''error'']
   \<and> alerts (upload_done test_rt (uploadFiles one_file) (Resolved html_page) one_file)
       = [''Server error: Expected JSON but received HTML (Status: 502)'']
   \<and> completions (upload_done test_rt (uploadFiles one_file) (Resolved html_page) one_file) = []"
proof -
  have n: "\<not> json_content_type html_page" by (simp add: json_content_type_def html_page_def)
  have a: "alerts (upload_done test_rt (uploadFiles one_file) (Resolved html_page) one_file) =
         alerts one_file @ [''Server error: Expected JSON but received HTML (Status: '' @
                 decimal (http_status html_page) @ '')'']"
    and c: "completions (upload_done test_rt (uploadFiles one_file) (Resolved html_page) one_file)
         = completions one_file"
    using upload_validates_content_type[of html_page test_rt "uploadFiles one_file" one_file] n
    by blast+
  have d: "decimal (http_status html_page) = ''502''" by (simp add: html_page_def decimal.simps)
  have s: "map uf_status (uploadFiles (upload_done test_rt (uploadFiles one_file) (Resolved html_page) one_file))
       = [''error'']"
    by (simp add: upload_done_not_json[OF n] upload_failed_def one_file_def mark_error_def)
  from n s a c d show ?thesis by (simp add: one_file_def)
qed

section \<open>Verification: the chain of reconnects has no bound\<close>

text \<open>
  What was evaluated above for seven closes holds for any number: after \<open>n\<close> refused
  connections the counter stands at \<open>n\<close>, and the next close arms a timer of 1000 ms
  again.
\<close>

lemma sidebar_run_append: "sidebar_run (es @ fs) s = sidebar_run fs (sidebar_run es s)"
  by (induction es arbitrary: s) simp_all

lemma commit_idle:
  "ws_dep s = project_key s \<Longrightarrow> poll_dep s = isConnected s \<Longrightarrow> commit False s = s"
  by (simp add: commit_def render_pass_def Let_def)

lemma chain_close:
  assumes "chain p n s"
  shows "sidebar_step (SocketCloses n) s =
     s\<lparr>sockets := (sockets s)[n := (sockets s ! n)\<lparr>ws_readyState := CLOSED\<rparr>],
       isConnected := False, wsConnection := None,
       reconnects := [\<lparr>rt_delay = 1000, rt_closure = \<lparr>cl_project = Some p, cl_retries = 0\<rparr>\<rparr>]\<rparr>"
proof -
  have o: "onclose n s =
     s\<lparr>sockets := (sockets s)[n := (sockets s ! n)\<lparr>ws_readyState := CLOSED\<rparr>],
       isConnected := False, wsConnection := None,
       reconnects := [\<lparr>rt_delay = 1000, rt_closure = \<lparr>cl_project = Some p, cl_retries = 0\<rparr>\<rparr>]\<rparr>"
    using assms by (simp add: chain_def onclose_def Let_def backoff_def)
  have "commit False (onclose n s) = onclose n s"
    using assms by (intro commit_idle) (simp_all add: o chain_def project_key_def)
  then show ?thesis using assms by (simp add: chain_def o)
qed

lemma chain_cycle:
  assumes "chain p n s"
  shows "chain p (Suc n) (sidebar_run [SocketCloses n, ReconnectFires 0] s)"
proof -
  let ?c = "s\<lparr>sockets := (sockets s)[n := (sockets s ! n)\<lparr>ws_readyState := CLOSED\<rparr>],
       isConnected := False, wsConnection := None,
       reconnects := [\<lparr>rt_delay = 1000, rt_closure = \<lparr>cl_project = Some p, cl_retries = 0\<rparr>\<rparr>]\<rparr>"
  let ?f = "reconnect_fires 0 ?c"
  have f: "?f = ?c\<lparr>reconnects := [], connectionRetries := Suc n,
       sockets := (sockets s)[n := (sockets s ! n)\<lparr>ws_readyState := CLOSED\<rparr>] @
         [\<lparr>url_project = proj_id p, url_token = the (access_token s),
           ws_closure = \<lparr>cl_project = Some p, cl_retries = 0\<rparr>, ws_readyState = CONNECTING\<rparr>]\<rparr>"
    using assms by (simp add: chain_def reconnect_fires_def connectWebSocket_def)
  have i: "commit False ?f = ?f"
    using assms by (intro commit_idle) (simp_all add: f chain_def project_key_def)
  have "sidebar_run [SocketCloses n, ReconnectFires 0] s =
        sidebar_step (ReconnectFires 0) (sidebar_step (SocketCloses n) s)"
    by (simp del: sidebar_step.simps)
  also have "\<dots> = sidebar_step (ReconnectFires 0) ?c"
    by (simp only: chain_close[OF assms])
  also have "\<dots> = commit False ?f" by simp
  finally have r: "sidebar_run [SocketCloses n, ReconnectFires 0] s = ?f"
    using i by simp
  show ?thesis
    unfolding r using assms by (simp add: f chain_def nth_append)
qed

lemma chain_mount:
  assumes "tok \<noteq> []"
  shows "chain p 0 (sidebar_mount (Some p) (Some tok) day)"
  using assms by (simp add: chain_def sidebar_eval)

lemma chain_refused:
  assumes "tok \<noteq> []"
  shows "chain p n (sidebar_run (refused n) (sidebar_mount (Some p) (Some tok) day))"
proof (induction n)
  case 0
  show ?case using chain_mount[OF assms] by simp
next
  case (Suc n)
  then show ?case by (simp add: sidebar_run_append chain_cycle del: sidebar_run.simps)
qed

lemma reconnects_never_stop:
  assumes "tok \<noteq> []"
  shows "connectionRetries (sidebar_run (refused n) (sidebar_mount (Some p) (Some tok) day)) = n"
    and "map rt_delay (reconnects (sidebar_step (SocketCloses n)
           (sidebar_run (refused n) (sidebar_mount (Some p) (Some tok) day)))) = [1000]"
  using chain_refused[OF assms, of p n day] chain_close[OF chain_refused[OF assms, of p n day]]
  by (simp_all add: chain_def del: sidebar_step.simps)

end
